theory Spec2Isabelle
  imports Complex_Main
begin

section \<open>Python text and dictionaries\<close>

text \<open>
  Python strings are modelled as \<^typ>\<open>string\<close>. The helpers below are the built-in
  operations the task scheduler uses on them: \<open>str.lower\<close>, \<open>str.startswith\<close>, the
  substring test \<open>needle in text\<close>, and the decimal formatting of an integer.
  \<open>char_lower\<close> changes the letters A to Z only. Characters outside ASCII, which
  \<open>str.lower\<close> may change as well, are never turned into an ASCII character by it for code
  points below 256, so they cannot create or destroy an occurrence of an ASCII phrase.
\<close>

definition ascii_upper :: string where
  "ascii_upper = ''ABCDEFGHIJKLMNOPQRSTUVWXYZ''"

definition ascii_lower :: string where
  "ascii_lower = ''abcdefghijklmnopqrstuvwxyz''"

definition char_lower :: "char \<Rightarrow> char" where
  "char_lower c = (case map_of (zip ascii_upper ascii_lower) c of Some l \<Rightarrow> l | None \<Rightarrow> c)"

definition lower :: "string \<Rightarrow> string" where
  "lower s = map char_lower s"

fun startswith :: "string \<Rightarrow> string \<Rightarrow> bool" where
  "startswith s [] = True"
| "startswith [] (p # ps) = False"
| "startswith (c # cs) (p # ps) = (c = p \<and> startswith cs ps)"

text \<open>\<open>str_contains needle text\<close> is Python's \<open>needle in text\<close>.\<close>

fun str_contains :: "string \<Rightarrow> string \<Rightarrow> bool" where
  "str_contains needle [] = (needle = [])"
| "str_contains needle (c # cs) = (startswith (c # cs) needle \<or> str_contains needle cs)"

text \<open>\<open>digit_char\<close> is only applied to numbers below ten.\<close>

definition digit_char :: "nat \<Rightarrow> char" where
  "digit_char d = ''0123456789'' ! d"

fun str_nat :: "nat \<Rightarrow> string" where
  "str_nat n = (if n < 10 then [digit_char n] else str_nat (n div 10) @ [digit_char (n mod 10)])"

definition str_int :: "int \<Rightarrow> string" where
  "str_int i = (if i < 0 then ''-'' @ str_nat (nat (- i)) else str_nat (nat i))"

text \<open>The format \<open>{n:03d}\<close> of a natural number: decimal, padded with zeros to width three.\<close>

definition format_03d :: "nat \<Rightarrow> string" where
  "format_03d n = (let s = str_nat n in replicate (3 - length s) CHR ''0'' @ s)"

text \<open>
  A Python \<open>dict\<close> keeps its keys in insertion order and holds each key once: it is an
  association list whose keys are distinct. \<open>dict_has d k\<close> is \<open>k in d\<close>, \<open>dict_keys d\<close> is
  the order in which a loop over \<open>d\<close> visits the keys.
\<close>

definition dict_keys :: "('k \<times> 'v) list \<Rightarrow> 'k list" where
  "dict_keys d = map fst d"

definition dict_has :: "('k \<times> 'v) list \<Rightarrow> 'k \<Rightarrow> bool" where
  "dict_has d k = (map_of d k \<noteq> None)"

section \<open>The execution adapter (flows/claude\_executor.py)\<close>

text \<open>
  A field \<open>f\<close> of a Python class is written with a short prefix for its class (\<open>cr_f\<close>,
  \<open>er_f\<close>, ...), since all record fields of a theory share one name space.
  Floating-point values that are only compared or passed on (modification times,
  durations) are modelled by the rational numbers they denote.
\<close>

record CompletedProcess =
  cp_stdout :: string
  cp_stderr :: string
  cp_returncode :: int

record ClaudeResult =
  cr_stdout :: string
  cr_stderr :: string
  cr_return_code :: int
  cr_session_id :: "string option"
  cr_error_message :: "string option"

record ClaudeExecutionResult =
  er_success :: bool
  er_stdout :: string
  er_stderr :: string
  er_return_code :: int
  er_execution_time :: rat
  er_changed_files :: "string list"
  er_workspace_path :: string
  er_session_id :: "string option"
  er_error_message :: "string option"
  er_token_limit_hit :: bool

text \<open>What \<open>subprocess.run\<close> does: the process exits, the timeout expires, or another
  exception is raised (its message is kept).\<close>

datatype proc_outcome = Exited CompletedProcess | TimeoutExpired | Raised string

type_synonym snapshot = "(string \<times> rat) list"

definition limit_indicators :: "string list" where
  "limit_indicators =
     [''rate limit'', ''usage limit'', ''token limit'', ''quota exceeded'',
      ''limit reached'', ''too many requests'', ''capacity limit'']"

definition check_token_limit_in_output :: "string \<Rightarrow> string \<Rightarrow> bool" where
  "check_token_limit_in_output stdout stderr =
     (let combined_output = lower (stdout @ stderr)
      in list_ex (\<lambda>indicator. str_contains indicator combined_output) limit_indicators)"

definition detect_file_changes :: "snapshot \<Rightarrow> snapshot \<Rightarrow> string \<Rightarrow> string list" where
  "detect_file_changes initial_files final_files workspace_path =
     (let new_files = filter (\<lambda>file_path. \<not> dict_has initial_files file_path)
                        (dict_keys final_files);
          modified = filter (\<lambda>file_path. dict_has final_files file_path \<and>
                        (case (map_of final_files file_path, map_of initial_files file_path) of
                           (Some tf, Some ti) \<Rightarrow> tf > ti
                         | _ \<Rightarrow> False))
                        (dict_keys initial_files)
      in new_files @ modified)"

text \<open>
  \<open>_start_new_claude_session\<close> and \<open>_resume_claude_session\<close>, from the exit of the
  subprocess on. The regular-expression search of \<open>_extract_session_id\<close> is the
  parameter \<open>extract_session_id\<close>.
\<close>

definition start_new_claude_session ::
  "(string \<Rightarrow> string option) \<Rightarrow> CompletedProcess \<Rightarrow> ClaudeResult" where
  "start_new_claude_session extract_session_id p =
     \<lparr>cr_stdout = cp_stdout p, cr_stderr = cp_stderr p, cr_return_code = cp_returncode p,
      cr_session_id = extract_session_id (cp_stdout p),
      cr_error_message = (if cp_returncode p = 0 then None else Some (cp_stderr p))\<rparr>"

definition resume_claude_session :: "string \<Rightarrow> CompletedProcess \<Rightarrow> ClaudeResult" where
  "resume_claude_session session_id p =
     \<lparr>cr_stdout = cp_stdout p, cr_stderr = cp_stderr p, cr_return_code = cp_returncode p,
      cr_session_id = Some session_id,
      cr_error_message = (if cp_returncode p = 0 then None else Some (cp_stderr p))\<rparr>"

definition default_timeout :: int where
  "default_timeout = 300"

text \<open>
  \<open>execute_task\<close>. The environment is given as arguments: the two snapshots of the
  workspace's files, the outcome of the subprocess and the measured duration. A session
  id counts as given when it is neither \<open>None\<close> nor empty, as the test \<open>if session_id\<close>
  has it.
\<close>

definition execute_task ::
  "(string \<Rightarrow> string option) \<Rightarrow> string \<Rightarrow> string option \<Rightarrow> int option \<Rightarrow> rat \<Rightarrow>
   snapshot \<Rightarrow> snapshot \<Rightarrow> proc_outcome \<Rightarrow> ClaudeExecutionResult" where
  "execute_task extract_session_id workspace_path session_id timeout elapsed
     initial_files final_files outcome =
     (let timeout = (case timeout of None \<Rightarrow> default_timeout | Some t \<Rightarrow> t)
      in case outcome of
        Exited p \<Rightarrow>
          (let result = (case session_id of
                           None \<Rightarrow> start_new_claude_session extract_session_id p
                         | Some s \<Rightarrow> if s = [] then start_new_claude_session extract_session_id p
                                     else resume_claude_session s p);
               changed_files = detect_file_changes initial_files final_files workspace_path;
               token_limit_hit =
                 check_token_limit_in_output (cr_stdout result) (cr_stderr result)
           in \<lparr>er_success = (cr_return_code result = 0 \<and> \<not> token_limit_hit),
               er_stdout = cr_stdout result,
               er_stderr = cr_stderr result,
               er_return_code = cr_return_code result,
               er_execution_time = elapsed,
               er_changed_files = changed_files,
               er_workspace_path = workspace_path,
               er_session_id = cr_session_id result,
               er_error_message = cr_error_message result,
               er_token_limit_hit = token_limit_hit\<rparr>)
      | TimeoutExpired \<Rightarrow>
          \<lparr>er_success = False, er_stdout = [], er_stderr = ''Claude Code execution timed out'',
           er_return_code = - 1, er_execution_time = elapsed, er_changed_files = [],
           er_workspace_path = workspace_path, er_session_id = None,
           er_error_message =
             Some (''Execution timed out after '' @ str_int timeout @ '' seconds''),
           er_token_limit_hit = False\<rparr>
      | Raised e \<Rightarrow>
          \<lparr>er_success = False, er_stdout = [], er_stderr = e,
           er_return_code = - 1, er_execution_time = elapsed, er_changed_files = [],
           er_workspace_path = workspace_path, er_session_id = None,
           er_error_message = Some (''Execution failed: '' @ e),
           er_token_limit_hit = False\<rparr>)"

text \<open>
  The specification's reading of the quota signal: some stretch of the text equals the
  phrase up to the case of its letters.
\<close>

definition occurs_ignoring_case :: "string \<Rightarrow> string \<Rightarrow> bool" where
  "occurs_ignoring_case phrase text =
     (\<exists>before part after. text = before @ part @ after \<and> lower part = lower phrase)"

section \<open>The task store (services/yaml\_manager.py)\<close>

text \<open>
  The tasks file is read and written through the YAML library, which is not part of the
  repository: the model starts from the data that \<open>yaml.safe_load\<close> returns and
  \<open>yaml.dump\<close> is given. A scalar of that data is \<open>null\<close>, a string or an integer; a
  mapping is a \<open>dict\<close>.
\<close>

datatype yval = YNull | YStr string | YInt int

type_synonym ydict = "(string \<times> yval) list"

text \<open>
  The exceptions. \<open>NameError\<close> is raised by the workspace manager, on a name that
  its module does not define. The others are the store's: \<open>TypeError\<close> is raised by
  the constructor of
  \<open>TaskConfig\<close> on a keyword it does not know or a required one that is missing, and
  \<open>KeyError\<close> by a missing key of a \<open>dict\<close>; each carries the name, keyword or key. Python
  stores a value of any type in a field. The model gives every field its declared
  type, and \<open>IllTyped\<close> marks a stored value that has no place in it: it stands for no
  Python exception. \<open>error_str e\<close> is \<open>str(e)\<close>, with the interpreter's sentence for a
  \<open>TypeError\<close> cut down to the keyword.
\<close>

datatype error = TypeError string | KeyError string | IllTyped string | NameError string

definition error_str :: "error \<Rightarrow> string" where
  "error_str e = (case e of TypeError k \<Rightarrow> ''TaskConfig.__init__() argument '' @ k
                  | KeyError k \<Rightarrow> [CHR 0x27] @ k @ [CHR 0x27]
                  | IllTyped k \<Rightarrow> k
                  | NameError n \<Rightarrow>
                      ''name '' @ [CHR 0x27] @ n @ [CHR 0x27] @ '' is not defined'')"

text \<open>
  \<open>TaskConfig\<close>. The field \<open>created_at\<close> is declared \<open>str\<close>: its default \<open>None\<close> is
  replaced by the current time in \<open>__post_init__\<close>, so a constructed task always holds
  a string there.
\<close>

record TaskConfig =
  tc_id :: string
  tc_title :: string
  tc_description :: string
  tc_prompt_template :: string
  tc_status :: string
  tc_created_at :: string
  tc_started_at :: "string option"
  tc_completed_at :: "string option"
  tc_attempts :: int
  tc_max_attempts :: int
  tc_last_error :: "string option"
  tc_session_id :: "string option"
  tc_workspace_path :: "string option"

definition yopt :: "string option \<Rightarrow> yval" where
  "yopt v = (case v of None \<Rightarrow> YNull | Some s \<Rightarrow> YStr s)"

definition asdict :: "TaskConfig \<Rightarrow> ydict" where
  "asdict t =
     [(''id'', YStr (tc_id t)),
      (''title'', YStr (tc_title t)),
      (''description'', YStr (tc_description t)),
      (''prompt_template'', YStr (tc_prompt_template t)),
      (''status'', YStr (tc_status t)),
      (''created_at'', YStr (tc_created_at t)),
      (''started_at'', yopt (tc_started_at t)),
      (''completed_at'', yopt (tc_completed_at t)),
      (''attempts'', YInt (tc_attempts t)),
      (''max_attempts'', YInt (tc_max_attempts t)),
      (''last_error'', yopt (tc_last_error t)),
      (''session_id'', yopt (tc_session_id t)),
      (''workspace_path'', yopt (tc_workspace_path t))]"

definition str_fields :: "string list" where
  "str_fields = [''id'', ''title'', ''description'', ''prompt_template'', ''status'']"

definition opt_str_fields :: "string list" where
  "opt_str_fields =
     [''created_at'', ''started_at'', ''completed_at'', ''last_error'', ''session_id'',
      ''workspace_path'']"

definition int_fields :: "string list" where
  "int_fields = [''attempts'', ''max_attempts'']"

definition field_names :: "string list" where
  "field_names = str_fields @ opt_str_fields @ int_fields"

definition required_fields :: "string list" where
  "required_fields = [''id'', ''title'', ''description'']"

text \<open>Whether a stored value has the declared type of the field it is stored under.\<close>

definition fits :: "string \<Rightarrow> yval \<Rightarrow> bool" where
  "fits k v =
     (case v of
        YStr _ \<Rightarrow> k \<in> set str_fields \<or> k \<in> set opt_str_fields
      | YNull \<Rightarrow> k \<in> set opt_str_fields
      | YInt _ \<Rightarrow> k \<in> set int_fields)"

definition str_or :: "string \<Rightarrow> yval option \<Rightarrow> string" where
  "str_or d v = (case v of Some (YStr s) \<Rightarrow> s | _ \<Rightarrow> d)"

definition opt_str :: "yval option \<Rightarrow> string option" where
  "opt_str v = (case v of Some (YStr s) \<Rightarrow> Some s | _ \<Rightarrow> None)"

definition int_or :: "int \<Rightarrow> yval option \<Rightarrow> int" where
  "int_or d v = (case v of Some (YInt i) \<Rightarrow> i | _ \<Rightarrow> d)"

text \<open>
  \<open>TaskConfig(**task_dict)\<close>, with \<open>now\<close> the time that \<open>__post_init__\<close> reads when
  \<open>created_at\<close> is missing or \<open>null\<close>. The defaults are those of the class.
\<close>

definition task_of_dict :: "string \<Rightarrow> ydict \<Rightarrow> error + TaskConfig" where
  "task_of_dict now d =
     (case filter (\<lambda>k. k \<notin> set field_names) (dict_keys d) of
        k # _ \<Rightarrow> Inl (TypeError k)
      | [] \<Rightarrow>
     (case filter (\<lambda>k. \<not> dict_has d k) required_fields of
        k # _ \<Rightarrow> Inl (TypeError k)
      | [] \<Rightarrow>
     (case filter (\<lambda>(k, v). \<not> fits k v) d of
        (k, _) # _ \<Rightarrow> Inl (IllTyped k)
      | [] \<Rightarrow>
        Inr \<lparr>tc_id = str_or [] (map_of d ''id''),
             tc_title = str_or [] (map_of d ''title''),
             tc_description = str_or [] (map_of d ''description''),
             tc_prompt_template = str_or ''default'' (map_of d ''prompt_template''),
             tc_status = str_or ''pending'' (map_of d ''status''),
             tc_created_at = str_or now (map_of d ''created_at''),
             tc_started_at = opt_str (map_of d ''started_at''),
             tc_completed_at = opt_str (map_of d ''completed_at''),
             tc_attempts = int_or 0 (map_of d ''attempts''),
             tc_max_attempts = int_or 3 (map_of d ''max_attempts''),
             tc_last_error = opt_str (map_of d ''last_error''),
             tc_session_id = opt_str (map_of d ''session_id''),
             tc_workspace_path = opt_str (map_of d ''workspace_path'')\<rparr>)))"

text \<open>
  The document of the tasks file: a mapping that may hold a \<open>meta\<close> mapping and a
  \<open>tasks\<close> list. The file itself is \<open>None\<close> when it is missing, is not YAML or is
  empty: \<open>_load_tasks_data\<close> answers the default document in all three cases.
  Opening and writing the file are taken to succeed.
\<close>

record tasks_data =
  td_meta :: "ydict option"
  td_tasks :: "ydict list option"

type_synonym tasks_file = "tasks_data option"

fun dict_set :: "('k \<times> 'v) list \<Rightarrow> 'k \<Rightarrow> 'v \<Rightarrow> ('k \<times> 'v) list" where
  "dict_set [] k v = [(k, v)]"
| "dict_set ((k', v') # d) k v = (if k' = k then (k, v) # d else (k', v') # dict_set d k v)"

definition default_data :: "string \<Rightarrow> tasks_data" where
  "default_data now =
     \<lparr>td_meta = Some [(''version'', YStr ''1.0''), (''last_updated'', YStr now)],
      td_tasks = Some []\<rparr>"

definition load_tasks_data :: "string \<Rightarrow> tasks_file \<Rightarrow> tasks_data" where
  "load_tasks_data now file = (case file of None \<Rightarrow> default_data now | Some data \<Rightarrow> data)"

definition save_tasks_data :: "string \<Rightarrow> tasks_data \<Rightarrow> error + tasks_file" where
  "save_tasks_data now data =
     (case td_meta data of
        None \<Rightarrow> Inl (KeyError ''meta'')
      | Some meta \<Rightarrow>
          Inr (Some (data\<lparr>td_meta := Some (dict_set meta ''last_updated'' (YStr now))\<rparr>)))"

text \<open>The loop of \<open>load_tasks\<close>: the first dictionary that the constructor refuses ends it.\<close>

fun tasks_of_dicts :: "string \<Rightarrow> ydict list \<Rightarrow> error + TaskConfig list" where
  "tasks_of_dicts now [] = Inr []"
| "tasks_of_dicts now (d # ds) =
     (case task_of_dict now d of
        Inl e \<Rightarrow> Inl e
      | Inr t \<Rightarrow> (case tasks_of_dicts now ds of Inl e \<Rightarrow> Inl e | Inr ts \<Rightarrow> Inr (t # ts)))"

definition load_tasks :: "string \<Rightarrow> tasks_file \<Rightarrow> error + TaskConfig list" where
  "load_tasks now file =
     (let data = load_tasks_data now file
      in tasks_of_dicts now (case td_tasks data of None \<Rightarrow> [] | Some ds \<Rightarrow> ds))"

definition save_tasks :: "string \<Rightarrow> tasks_file \<Rightarrow> TaskConfig list \<Rightarrow> error + tasks_file" where
  "save_tasks now file tasks =
     (let data = load_tasks_data now file
      in save_tasks_data now (data\<lparr>td_tasks := Some (map asdict tasks)\<rparr>))"

text \<open>
  \<open>add_task\<close>. The loop that looks for an unused id may run forever, so it is a partial
  function: \<open>None\<close> is the loop that never ends. \<open>add_task\<close> passes that on; otherwise it
  answers \<open>Some\<close> of an exception or of the new task and the file as written.
\<close>

definition task_id_of :: "nat \<Rightarrow> string" where
  "task_id_of n = ''task-'' @ format_03d n"

partial_function (option) unused_id_loop :: "TaskConfig list \<Rightarrow> string \<Rightarrow> string option" where
  "unused_id_loop tasks task_id =
     (if list_ex (\<lambda>t. tc_id t = task_id) tasks
      then unused_id_loop tasks
             (task_id_of (length tasks + 1 +
                length (filter (\<lambda>t. startswith (tc_id t) ''task-'') tasks)))
      else Some task_id)"

definition new_task :: "string \<Rightarrow> string \<Rightarrow> string \<Rightarrow> string \<Rightarrow> string \<Rightarrow> TaskConfig" where
  "new_task now task_id title description prompt_template =
     \<lparr>tc_id = task_id, tc_title = title, tc_description = description,
      tc_prompt_template = prompt_template, tc_status = ''pending'', tc_created_at = now,
      tc_started_at = None, tc_completed_at = None, tc_attempts = 0, tc_max_attempts = 3,
      tc_last_error = None, tc_session_id = None, tc_workspace_path = None\<rparr>"

definition add_task ::
  "string \<Rightarrow> tasks_file \<Rightarrow> string \<Rightarrow> string \<Rightarrow> string \<Rightarrow>
   (error + TaskConfig \<times> tasks_file) option" where
  "add_task now file title description prompt_template =
     (case load_tasks now file of
        Inl e \<Rightarrow> Some (Inl e)
      | Inr tasks \<Rightarrow>
          (case unused_id_loop tasks (task_id_of (length tasks + 1)) of
             None \<Rightarrow> None
           | Some task_id \<Rightarrow>
               (let t = new_task now task_id title description prompt_template
                in case save_tasks now file (tasks @ [t]) of
                     Inl e \<Rightarrow> Some (Inl e)
                   | Inr file' \<Rightarrow> Some (Inr (t, file')))))"

definition get_task :: "string \<Rightarrow> tasks_file \<Rightarrow> string \<Rightarrow> error + TaskConfig option" where
  "get_task now file task_id =
     (case load_tasks now file of
        Inl e \<Rightarrow> Inl e
      | Inr tasks \<Rightarrow> Inr (find (\<lambda>task. tc_id task = task_id) tasks))"

text \<open>
  The keyword arguments of \<open>update_task\<close>, one constructor for each field of the class
  and \<open>Other\<close> for a keyword that is no field (\<open>hasattr\<close> is false and it is skipped).
\<close>

datatype update =
    Id string | Title string | Description string | Prompt_template string | Status string
  | Created_at string | Started_at "string option" | Completed_at "string option"
  | Attempts int | Max_attempts int | Last_error "string option"
  | Session_id "string option" | Workspace_path "string option" | Other string

fun setattr :: "update \<Rightarrow> TaskConfig \<Rightarrow> TaskConfig" where
  "setattr (Id v) t = t\<lparr>tc_id := v\<rparr>"
| "setattr (Title v) t = t\<lparr>tc_title := v\<rparr>"
| "setattr (Description v) t = t\<lparr>tc_description := v\<rparr>"
| "setattr (Prompt_template v) t = t\<lparr>tc_prompt_template := v\<rparr>"
| "setattr (Status v) t = t\<lparr>tc_status := v\<rparr>"
| "setattr (Created_at v) t = t\<lparr>tc_created_at := v\<rparr>"
| "setattr (Started_at v) t = t\<lparr>tc_started_at := v\<rparr>"
| "setattr (Completed_at v) t = t\<lparr>tc_completed_at := v\<rparr>"
| "setattr (Attempts v) t = t\<lparr>tc_attempts := v\<rparr>"
| "setattr (Max_attempts v) t = t\<lparr>tc_max_attempts := v\<rparr>"
| "setattr (Last_error v) t = t\<lparr>tc_last_error := v\<rparr>"
| "setattr (Session_id v) t = t\<lparr>tc_session_id := v\<rparr>"
| "setattr (Workspace_path v) t = t\<lparr>tc_workspace_path := v\<rparr>"
| "setattr (Other k) t = t"

text \<open>
  The loop of \<open>update_task\<close>: the first task with the id gets the updates, in the order
  of the keywords; \<open>None\<close> when the loop ends without having found one.
\<close>

fun update_first :: "string \<Rightarrow> update list \<Rightarrow> TaskConfig list \<Rightarrow> TaskConfig list option" where
  "update_first task_id updates [] = None"
| "update_first task_id updates (task # tasks) =
     (if tc_id task = task_id then Some (fold setattr updates task # tasks)
      else map_option (\<lambda>ts. task # ts) (update_first task_id updates tasks))"

definition update_task ::
  "string \<Rightarrow> tasks_file \<Rightarrow> string \<Rightarrow> update list \<Rightarrow> error + bool \<times> tasks_file" where
  "update_task now file task_id updates =
     (case load_tasks now file of
        Inl e \<Rightarrow> Inl e
      | Inr tasks \<Rightarrow>
          (case update_first task_id updates tasks of
             None \<Rightarrow> Inr (False, file)
           | Some tasks' \<Rightarrow>
               (case save_tasks now file tasks' of
                  Inl e \<Rightarrow> Inl e
                | Inr file' \<Rightarrow> Inr (True, file'))))"

definition delete_task :: "string \<Rightarrow> tasks_file \<Rightarrow> string \<Rightarrow> error + bool \<times> tasks_file" where
  "delete_task now file task_id =
     (case load_tasks now file of
        Inl e \<Rightarrow> Inl e
      | Inr tasks \<Rightarrow>
          (let original_count = length tasks;
               tasks' = filter (\<lambda>task. tc_id task \<noteq> task_id) tasks
           in if length tasks' < original_count
              then (case save_tasks now file tasks' of
                      Inl e \<Rightarrow> Inl e
                    | Inr file' \<Rightarrow> Inr (True, file'))
              else Inr (False, file)))"

definition get_tasks_by_status :: "string \<Rightarrow> tasks_file \<Rightarrow> string \<Rightarrow> error + TaskConfig list" where
  "get_tasks_by_status now file status =
     (case load_tasks now file of
        Inl e \<Rightarrow> Inl e
      | Inr tasks \<Rightarrow> Inr (filter (\<lambda>task. tc_status task = status) tasks))"

text \<open>
  The status helpers. \<open>mark_task_running\<close> reads the task (twice in the source, with the
  same answer) to count the attempt, and passes a session id on only when it is
  neither \<open>None\<close> nor empty.
\<close>

definition mark_task_running ::
  "string \<Rightarrow> tasks_file \<Rightarrow> string \<Rightarrow> string option \<Rightarrow> error + bool \<times> tasks_file" where
  "mark_task_running now file task_id session_id =
     (case get_task now file task_id of
        Inl e \<Rightarrow> Inl e
      | Inr found \<Rightarrow>
          update_task now file task_id
            ([Status ''running'', Started_at (Some now),
              Attempts (case found of Some t \<Rightarrow> tc_attempts t + 1 | None \<Rightarrow> 1)] @
             (case session_id of
                None \<Rightarrow> []
              | Some s \<Rightarrow> if s = [] then [] else [Session_id (Some s)])))"

definition mark_task_completed :: "string \<Rightarrow> tasks_file \<Rightarrow> string \<Rightarrow> error + bool \<times> tasks_file" where
  "mark_task_completed now file task_id =
     update_task now file task_id
       [Status ''completed'', Completed_at (Some now), Last_error None]"

definition mark_task_failed ::
  "string \<Rightarrow> tasks_file \<Rightarrow> string \<Rightarrow> string \<Rightarrow> error + bool \<times> tasks_file" where
  "mark_task_failed now file task_id err =
     update_task now file task_id
       [Status ''failed'', Completed_at (Some now), Last_error (Some err)]"

definition mark_task_paused ::
  "string \<Rightarrow> tasks_file \<Rightarrow> string \<Rightarrow> string \<Rightarrow> error + bool \<times> tasks_file" where
  "mark_task_paused now file task_id reason =
     update_task now file task_id [Status ''paused'', Last_error (Some reason)]"

definition reset_task :: "string \<Rightarrow> tasks_file \<Rightarrow> string \<Rightarrow> error + bool \<times> tasks_file" where
  "reset_task now file task_id =
     update_task now file task_id
       [Status ''pending'', Started_at None, Completed_at None, Last_error None,
        Session_id None]"

text \<open>
  A tasks file that \<open>save_tasks\<close> can rewrite: a document in it has its \<open>meta\<close> mapping.
  Every file that the manager has written is of this kind.
\<close>

definition has_meta :: "tasks_file \<Rightarrow> bool" where
  "has_meta file = (case file of None \<Rightarrow> True | Some data \<Rightarrow> td_meta data \<noteq> None)"

text \<open>
  A sequence of \<open>add_task\<close> and \<open>delete_task\<close> calls on the store, each on the file the
  one before has written; \<open>None\<close> when a call raises or does not return.
\<close>

datatype store_op = Add string string string | Delete string

fun run_ops :: "string \<Rightarrow> store_op list \<Rightarrow> tasks_file \<Rightarrow> tasks_file option" where
  "run_ops now [] file = Some file"
| "run_ops now (Add title description prompt_template # ops) file =
     (case add_task now file title description prompt_template of
        Some (Inr (t, file')) \<Rightarrow> run_ops now ops file'
      | _ \<Rightarrow> None)"
| "run_ops now (Delete task_id # ops) file =
     (case delete_task now file task_id of
        Inr (ok, file') \<Rightarrow> run_ops now ops file'
      | Inl e \<Rightarrow> None)"

text \<open>A store that holds the two tasks \<open>task-003\<close> and \<open>task-005\<close>.\<close>

definition store_003_005 :: tasks_file where
  "store_003_005 =
     Some \<lparr>td_meta = Some [(''version'', YStr ''1.0''), (''last_updated'', YStr ''t'')],
           td_tasks = Some [asdict (new_task ''t'' ''task-003'' ''c'' ''d'' ''default''),
                            asdict (new_task ''t'' ''task-005'' ''e'' ''d'' ''default'')]\<rparr>"

section \<open>The token monitor (services/token\_monitor.py)\<close>

text \<open>
  \<open>can_run_tasks\<close> decides from the status that \<open>check_token_status\<close> returns, which is
  an argument here: \<open>None\<close> when the check failed. The percentage and the thresholds are
  floating-point numbers that are only compared: they are the rational numbers they
  denote. The defaults 0.8 and 0.95 are written as the binary fractions that Python
  stores for them. The time until the reset is a \<open>timedelta\<close> of whole seconds (the
  parser builds it from hours and minutes); it counts as given when it is not zero.
  The text that the format \<open>.1%\<close> gives for the percentage is the argument
  \<open>percent_text\<close>.
\<close>

datatype SubscriptionPlan = PRO | MAX_5X | MAX_20X

record TokenUsageInfo =
  tu_messages_used :: int
  tu_messages_limit :: int
  tu_percentage_used :: rat
  tu_time_until_reset :: "int option"
  tu_plan :: "SubscriptionPlan option"
  tu_raw_output :: string
  tu_timestamp :: string

record TokenMonitor =
  tm_warning_threshold :: rat
  tm_critical_threshold :: rat

definition default_monitor :: TokenMonitor where
  "default_monitor =
     \<lparr>tm_warning_threshold = 3602879701896397 / 4503599627370496,
      tm_critical_threshold = 4278419646001971 / 4503599627370496\<rparr>"

definition can_run_tasks ::
  "string \<Rightarrow> TokenMonitor \<Rightarrow> TokenUsageInfo option \<Rightarrow> bool \<times> string" where
  "can_run_tasks percent_text monitor status =
     (case status of
        None \<Rightarrow> (False, ''Could not check Claude Code token status'')
      | Some st \<Rightarrow>
          if tu_percentage_used st \<ge> tm_critical_threshold monitor
          then (let time_str =
                  (case tu_time_until_reset st of
                     None \<Rightarrow> []
                   | Some secs \<Rightarrow>
                       if secs = 0 then []
                       else '' (resets in '' @ str_int (secs div 3600) @ ''h '' @
                            str_int ((secs mod 3600) div 60) @ ''m)'')
                in (False, ''Token usage at '' @ percent_text @
                           '', above critical threshold'' @ time_str))
          else (True, ''Token usage within acceptable limits''))"

section \<open>The workspace manager (services/workspace\_manager.py)\<close>

text \<open>
  The manager with the part of the disk it works on: its dictionary
  \<open>active_workspaces\<close>, the registry file (the dictionary as last written), and the
  directories that exist. A path is a string; the directory it names is a list of
  names from the root, which the operating system finds for it (\<open>os_resolve\<close>): two
  paths may name one directory. \<open>directories\<close> lists the directories that exist, and
  a directory lies at or below another when the other's list begins its own. The files in
  a directory are not modelled.

  \<open>os_template_applies\<close> says for which template names the template directory exists
  and is copied without error. \<open>shutil.rmtree\<close> may fail, as \<open>cleanup_workspace\<close>
  provides for: \<open>os_rmtree_fails\<close> says on which paths, and \<open>os_rmtree_lost\<close> which
  directories below it such a failed removal had removed already.
  \<open>tempfile.mkdtemp\<close> settles on a random suffix, an argument of \<open>create_workspace\<close>,
  and answers the base directory joined with the name (the base directory is taken to be
  absolute where a temporary directory is made). Creating a directory and writing the
  registry file are taken to succeed.
\<close>

record os_env =
  os_resolve :: "string \<Rightarrow> string list"
  os_template_applies :: "string \<Rightarrow> bool"
  os_rmtree_fails :: "string \<Rightarrow> bool"
  os_rmtree_lost :: "string list \<Rightarrow> bool"

record WorkspaceInfo =
  wi_task_id :: string
  wi_workspace_path :: string
  wi_created_at :: string
  wi_is_temporary :: bool
  wi_base_template :: "string option"

record workspaces =
  base_workspace_dir :: string
  active_workspaces :: "(string \<times> WorkspaceInfo) list"
  registry_file :: "(string \<times> WorkspaceInfo) list"
  directories :: "string list list"

definition dict_del :: "('k \<times> 'v) list \<Rightarrow> 'k \<Rightarrow> ('k \<times> 'v) list" where
  "dict_del d k = filter (\<lambda>(k', v). k' \<noteq> k) d"

text \<open>\<open>at_or_below tree d\<close>: the directory \<open>d\<close> is \<open>tree\<close> or lies below it.\<close>

fun at_or_below :: "string list \<Rightarrow> string list \<Rightarrow> bool" where
  "at_or_below [] d = True"
| "at_or_below (a # tree) [] = False"
| "at_or_below (a # tree) (b # d) = (a = b \<and> at_or_below tree d)"

text \<open>A directory with the directories above it, which \<open>mkdir(parents=True)\<close> makes too.\<close>

fun ancestors :: "string list \<Rightarrow> string list list" where
  "ancestors [] = [[]]"
| "ancestors (a # d) = [] # map (\<lambda>p. a # p) (ancestors d)"

definition mkdir_parents :: "string list \<Rightarrow> string list list \<Rightarrow> string list list" where
  "mkdir_parents d dirs = fold List.insert (ancestors d) dirs"

definition rmtree :: "string list \<Rightarrow> string list list \<Rightarrow> string list list" where
  "rmtree tree dirs = filter (\<lambda>d. \<not> at_or_below tree d) dirs"

text \<open>What is left of the directories when the removal of \<open>tree\<close> fails.\<close>

definition rmtree_failed :: "os_env \<Rightarrow> string list \<Rightarrow> string list list \<Rightarrow> string list list" where
  "rmtree_failed os tree dirs =
     filter (\<lambda>d. \<not> (at_or_below tree d \<and> d \<noteq> tree \<and> os_rmtree_lost os d)) dirs"

text \<open>
  The constructor on a disk without a registry file: it makes the base directory.
\<close>

definition new_manager :: "os_env \<Rightarrow> string list list \<Rightarrow> string \<Rightarrow> workspaces" where
  "new_manager os dirs base =
     \<lparr>base_workspace_dir = base, active_workspaces = [], registry_file = [],
      directories = mkdir_parents (os_resolve os base) dirs\<rparr>"

text \<open>
  \<open>create_workspace\<close>. The module does not import \<open>datetime\<close>, which
  \<open>_create_basic_workspace\<close> uses: whenever no template is applied (none is named, the
  named one is missing, or its copy fails) the call raises \<open>NameError\<close>, after the
  directory has been made and before the workspace is registered. The answer is the
  path or the exception, with the manager and the disk as the call leaves them.
\<close>

definition create_workspace ::
  "os_env \<Rightarrow> string \<Rightarrow> string \<Rightarrow> workspaces \<Rightarrow> string \<Rightarrow> string option \<Rightarrow> bool \<Rightarrow>
   (error + string) \<times> workspaces" where
  "create_workspace os now suffix w task_id template_name temporary =
     (case map_of (active_workspaces w) task_id of
        Some info \<Rightarrow> (Inr (wi_workspace_path info), w)
      | None \<Rightarrow>
          (let workspace_path =
                 (if temporary
                  then base_workspace_dir w @ ''/'' @ ''task_'' @ task_id @ ''_'' @ suffix
                  else base_workspace_dir w @ ''/'' @ task_id);
               made =
                 (if temporary
                  then w\<lparr>directories :=
                           List.insert (os_resolve os workspace_path) (directories w)\<rparr>
                  else w\<lparr>directories :=
                           mkdir_parents (os_resolve os workspace_path) (directories w)\<rparr>);
               template_applied =
                 (case template_name of
                    None \<Rightarrow> False
                  | Some name \<Rightarrow> name \<noteq> [] \<and> os_template_applies os name)
           in if \<not> template_applied then (Inl (NameError ''datetime''), made)
              else (let workspace_info =
                          \<lparr>wi_task_id = task_id, wi_workspace_path = workspace_path,
                           wi_created_at = now, wi_is_temporary = temporary,
                           wi_base_template = template_name\<rparr>;
                        active = dict_set (active_workspaces w) task_id workspace_info
                    in (Inr workspace_path,
                        made\<lparr>active_workspaces := active, registry_file := active\<rparr>))))"

definition cleanup_workspace ::
  "os_env \<Rightarrow> workspaces \<Rightarrow> string \<Rightarrow> bool \<Rightarrow> bool \<times> workspaces" where
  "cleanup_workspace os w task_id force =
     (case map_of (active_workspaces w) task_id of
        None \<Rightarrow> (True, w)
      | Some workspace_info \<Rightarrow>
          if \<not> wi_is_temporary workspace_info \<and> \<not> force then (False, w)
          else (let tree = os_resolve os (wi_workspace_path workspace_info)
                in if tree \<in> set (directories w) \<and>
                      os_rmtree_fails os (wi_workspace_path workspace_info)
                   then (False, w\<lparr>directories := rmtree_failed os tree (directories w)\<rparr>)
                   else (let active = dict_del (active_workspaces w) task_id
                         in (True,
                             w\<lparr>directories :=
                                 (if tree \<in> set (directories w)
                                  then rmtree tree (directories w)
                                  else directories w),
                               active_workspaces := active,
                               registry_file := active\<rparr>))))"

text \<open>The second loop of \<open>cleanup_all_temporary_workspaces\<close>, with the count so far.\<close>

fun cleanup_loop ::
  "os_env \<Rightarrow> string list \<Rightarrow> workspaces \<Rightarrow> nat \<Rightarrow> nat \<times> workspaces" where
  "cleanup_loop os [] w cleaned_count = (cleaned_count, w)"
| "cleanup_loop os (task_id # task_ids) w cleaned_count =
     (case cleanup_workspace os w task_id False of
        (ok, w') \<Rightarrow>
          cleanup_loop os task_ids w' (if ok then cleaned_count + 1 else cleaned_count))"

definition cleanup_all_temporary_workspaces :: "os_env \<Rightarrow> workspaces \<Rightarrow> nat \<times> workspaces" where
  "cleanup_all_temporary_workspaces os w =
     (let task_ids_to_cleanup =
            map fst (filter (\<lambda>(task_id, workspace_info). wi_is_temporary workspace_info)
                       (active_workspaces w))
      in cleanup_loop os task_ids_to_cleanup w 0)"

text \<open>
  Examples. \<open>components\<close> is \<open>path.split('/')\<close>: the directory that a path without
  \<open>.\<close>, \<open>..\<close> and links names. In \<open>plain_os\<close> the template \<open>python\<close> applies and every
  removal succeeds; in \<open>locked_os\<close> the removal of the workspace directory of task \<open>b\<close>
  fails, with nothing removed. \<open>fresh_manager\<close> is a new manager on an empty disk.
\<close>

fun components :: "string \<Rightarrow> string list" where
  "components [] = [[]]"
| "components (c # cs) =
     (if c = CHR ''/'' then [] # components cs
      else (case components cs of [] \<Rightarrow> [[c]] | x # xs \<Rightarrow> (c # x) # xs))"

definition python_only :: "string \<Rightarrow> bool" where
  "python_only name = (name = ''python'')"

definition never :: "'a \<Rightarrow> bool" where
  "never x = False"

definition is_dir_of_b :: "string \<Rightarrow> bool" where
  "is_dir_of_b p = (p = ''/srv/workspaces/task_b_p0w2m7zt'')"

definition plain_os :: os_env where
  "plain_os =
     \<lparr>os_resolve = components, os_template_applies = python_only, os_rmtree_fails = never,
      os_rmtree_lost = never\<rparr>"

definition locked_os :: os_env where
  "locked_os =
     \<lparr>os_resolve = components, os_template_applies = python_only,
      os_rmtree_fails = is_dir_of_b, os_rmtree_lost = never\<rparr>"

definition fresh_manager :: workspaces where
  "fresh_manager = new_manager plain_os [] ''/srv/workspaces''"

text \<open>
  \<open>shared_workspaces\<close>: three calls of \<open>create_workspace\<close> with the template \<open>python\<close>.
  The temporary workspace of task \<open>a\<close> gets the directory
  \<open>/srv/workspaces/task_a_k3v9q_xa\<close>; the persistent workspace made next for the task
  id \<open>task_a_k3v9q_xa\<close> has the same directory; task \<open>b\<close> gets a temporary workspace
  of its own. In \<open>separate_workspaces\<close> the persistent workspace is that of task \<open>keep\<close>,
  with a directory of its own.
\<close>

definition shared_workspaces :: workspaces where
  "shared_workspaces =
     snd (create_workspace plain_os ''t3'' ''p0w2m7zt''
       (snd (create_workspace plain_os ''t2'' []
         (snd (create_workspace plain_os ''t1'' ''k3v9q_xa'' fresh_manager
                ''a'' (Some ''python'') True))
         ''task_a_k3v9q_xa'' (Some ''python'') False))
       ''b'' (Some ''python'') True)"

definition separate_workspaces :: workspaces where
  "separate_workspaces =
     snd (create_workspace plain_os ''t3'' ''p0w2m7zt''
       (snd (create_workspace plain_os ''t2'' []
         (snd (create_workspace plain_os ''t1'' ''k3v9q_xa'' fresh_manager
                ''a'' (Some ''python'') True))
         ''keep'' (Some ''python'') False))
       ''b'' (Some ''python'') True)"

section \<open>The orchestrator (flows/task\_processor.py)\<close>

text \<open>
  What one run of \<open>process_single_task\<close> meets outside the program: the time, the
  status the token monitor reads and the text of its percentage, the operating system
  under the workspace manager, the suffix of the temporary directory, and what
  \<open>execute_task\<close> is given (the snapshots, the outcome of the subprocess, the duration).
\<close>

record environment =
  env_now :: string
  env_token_status :: "TokenUsageInfo option"
  env_percent_text :: string
  env_os :: os_env
  env_suffix :: string
  env_extract_session_id :: "string \<Rightarrow> string option"
  env_initial_files :: snapshot
  env_final_files :: snapshot
  env_outcome :: proc_outcome
  env_elapsed :: rat

text \<open>The dictionary that \<open>process_single_task\<close> returns; a key that a branch leaves out
  is \<open>None\<close>.\<close>

record task_result =
  tr_task_id :: string
  tr_success :: bool
  tr_error :: "string option"
  tr_status :: string
  tr_continue_processing :: bool
  tr_execution_time :: "rat option"
  tr_changed_files :: "string list option"
  tr_workspace_path :: "string option"
  tr_session_id :: "string option option"

text \<open>
  The handler of \<open>process_single_task\<close> for an exception \<open>e\<close> raised while the store was
  \<open>file\<close>: the task is marked failed. An exception of that call leaves the function.
\<close>

definition on_exception ::
  "string \<Rightarrow> tasks_file \<Rightarrow> workspaces \<Rightarrow> string \<Rightarrow> error \<Rightarrow>
   error + task_result \<times> tasks_file \<times> workspaces" where
  "on_exception now file w task_id e =
     (case mark_task_failed now file task_id (''Unexpected error: '' @ error_str e) of
        Inl e' \<Rightarrow> Inl e'
      | Inr (_, file') \<Rightarrow>
          Inr (\<lparr>tr_task_id = task_id, tr_success = False, tr_error = Some (error_str e),
                tr_status = ''failed'', tr_continue_processing = True,
                tr_execution_time = None, tr_changed_files = None,
                tr_workspace_path = None, tr_session_id = None\<rparr>, file', w))"

definition process_single_task ::
  "environment \<Rightarrow> TokenMonitor \<Rightarrow> int \<Rightarrow> TaskConfig \<Rightarrow> tasks_file \<Rightarrow> workspaces \<Rightarrow>
   error + task_result \<times> tasks_file \<times> workspaces" where
  "process_single_task env token_monitor timeout task_config file w =
     (let now = env_now env; task_id = tc_id task_config
      in case mark_task_running now file task_id None of
        Inl e \<Rightarrow> on_exception now file w task_id e
      | Inr (_, file1) \<Rightarrow>
     (case can_run_tasks (env_percent_text env) token_monitor (env_token_status env) of
        (can_run, reason) \<Rightarrow>
     if \<not> can_run then
       (case mark_task_paused now file1 task_id reason of
          Inl e \<Rightarrow> on_exception now file1 w task_id e
        | Inr (_, file2) \<Rightarrow>
            Inr (\<lparr>tr_task_id = task_id, tr_success = False, tr_error = Some reason,
                  tr_status = ''paused'', tr_continue_processing = False,
                  tr_execution_time = None, tr_changed_files = None,
                  tr_workspace_path = None, tr_session_id = None\<rparr>, file2, w))
     else
     (case create_workspace (env_os env) now (env_suffix env) w task_id None True of
        (Inl e, w1) \<Rightarrow> on_exception now file1 w1 task_id e
      | (Inr workspace_path, w1) \<Rightarrow>
     (case update_task now file1 task_id [Workspace_path (Some workspace_path)] of
        Inl e \<Rightarrow> on_exception now file1 w1 task_id e
      | Inr (_, file2) \<Rightarrow>
     (let execution_result =
            execute_task (env_extract_session_id env) workspace_path
              (tc_session_id task_config) (Some timeout) (env_elapsed env)
              (env_initial_files env) (env_final_files env) (env_outcome env)
      in
     if er_success execution_result then
       (case mark_task_completed now file2 task_id of
          Inl e \<Rightarrow> on_exception now file2 w1 task_id e
        | Inr (_, file3) \<Rightarrow>
            Inr (\<lparr>tr_task_id = task_id, tr_success = True, tr_error = None,
                  tr_status = ''completed'', tr_continue_processing = True,
                  tr_execution_time = Some (er_execution_time execution_result),
                  tr_changed_files = Some (er_changed_files execution_result),
                  tr_workspace_path = Some (er_workspace_path execution_result),
                  tr_session_id = None\<rparr>, file3, w1))
     else if er_token_limit_hit execution_result then
       (case (case er_session_id execution_result of
                None \<Rightarrow> Inr (False, file2)
              | Some s \<Rightarrow> if s = [] then Inr (False, file2)
                          else update_task now file2 task_id [Session_id (Some s)]) of
          Inl e \<Rightarrow> on_exception now file2 w1 task_id e
        | Inr (_, file3) \<Rightarrow>
       (case mark_task_paused now file3 task_id ''Token limit reached during execution'' of
          Inl e \<Rightarrow> on_exception now file3 w1 task_id e
        | Inr (_, file4) \<Rightarrow>
            Inr (\<lparr>tr_task_id = task_id, tr_success = False,
                  tr_error = Some ''Token limit reached'',
                  tr_status = ''paused'', tr_continue_processing = False,
                  tr_execution_time = None, tr_changed_files = None,
                  tr_workspace_path = None,
                  tr_session_id = Some (er_session_id execution_result)\<rparr>, file4, w1)))
     else
       (let error_msg =
              (case er_error_message execution_result of
                 None \<Rightarrow> ''Claude Code execution failed''
               | Some m \<Rightarrow> if m = [] then ''Claude Code execution failed'' else m)
        in case (if tc_attempts task_config \<ge> tc_max_attempts task_config
                 then map_sum id (\<lambda>r. (''failed'', r))
                        (mark_task_failed now file2 task_id error_msg)
                 else map_sum id (\<lambda>r. (''pending'', r)) (reset_task now file2 task_id)) of
             Inl e \<Rightarrow> on_exception now file2 w1 task_id e
           | Inr (status, _, file3) \<Rightarrow>
               Inr (\<lparr>tr_task_id = task_id, tr_success = False, tr_error = Some error_msg,
                     tr_status = status, tr_continue_processing = True,
                     tr_execution_time = Some (er_execution_time execution_result),
                     tr_changed_files = None, tr_workspace_path = None,
                     tr_session_id = None\<rparr>, file3, w1)))))))"

text \<open>Python's slice \<open>xs[:n]\<close>: a negative \<open>n\<close> counts from the end.\<close>

definition slice_to :: "int \<Rightarrow> 'a list \<Rightarrow> 'a list" where
  "slice_to n xs = (if n \<ge> 0 then take (nat n) xs else take (length xs - nat (- n)) xs)"

definition get_pending_tasks :: "string \<Rightarrow> tasks_file \<Rightarrow> int \<Rightarrow> error + TaskConfig list" where
  "get_pending_tasks now file max_tasks =
     (case get_tasks_by_status now file ''pending'' of
        Inl e \<Rightarrow> Inl e
      | Inr pending_tasks \<Rightarrow>
          (case get_tasks_by_status now file ''paused'' of
             Inl e \<Rightarrow> Inl e
           | Inr paused_tasks \<Rightarrow>
               (let resumable_tasks =
                      filter (\<lambda>task. case tc_session_id task of
                                        None \<Rightarrow> False | Some s \<Rightarrow> s \<noteq> [])
                        paused_tasks;
                    all_tasks = pending_tasks @ resumable_tasks
                in Inr (slice_to max_tasks all_tasks))))"

text \<open>
  A store with one pending task that has been attempted twice, of at most three times;
  a manager, with the base directory \<open>workspaces\<close> of the flow, in which a persistent
  workspace was made for the task from the template \<open>python\<close>; and a run in which the
  subprocess exits with code 1 and no quota phrase.
\<close>

definition twice_tried :: TaskConfig where
  "twice_tried =
     (new_task ''09:00'' ''task-001'' ''Write tests'' ''unit tests'' ''default'')
       \<lparr>tc_attempts := 2\<rparr>"

definition store_twice_tried :: tasks_file where
  "store_twice_tried =
     Some \<lparr>td_meta = Some [(''version'', YStr ''1.0''), (''last_updated'', YStr ''09:30'')],
           td_tasks = Some [asdict twice_tried]\<rparr>"

definition prepared_workspaces :: workspaces where
  "prepared_workspaces =
     snd (create_workspace plain_os ''09:10'' [] (new_manager plain_os [] ''workspaces'')
            ''task-001'' (Some ''python'') False)"

definition no_session_id :: "string \<Rightarrow> string option" where
  "no_session_id output = None"

definition failing_run :: environment where
  "failing_run =
     \<lparr>env_now = ''10:00'',
      env_token_status =
        Some \<lparr>tu_messages_used = 45, tu_messages_limit = 225,
              tu_percentage_used = 3602879701896397 / 18014398509481984,
              tu_time_until_reset = None, tu_plan = Some MAX_5X,
              tu_raw_output = ''45/225 messages'', tu_timestamp = ''10:00''\<rparr>,
      env_percent_text = ''20.0%'',
      env_os = plain_os,
      env_suffix = ''k3v9q_xa'',
      env_extract_session_id = no_session_id,
      env_initial_files = [(''README.md'', 50)],
      env_final_files = [(''README.md'', 50), (''.claude/prompt.md'', 100)],
      env_outcome = Exited \<lparr>cp_stdout = [], cp_stderr = ''compile error'', cp_returncode = 1\<rparr>,
      env_elapsed = 12\<rparr>"

section \<open>Properties of the execution adapter\<close>

lemma startswith_iff: "startswith s p \<longleftrightarrow> (\<exists>r. s = p @ r)"
  by (induction s p rule: startswith.induct) auto

lemma str_contains_iff: "str_contains n h \<longleftrightarrow> (\<exists>ps ss. h = ps @ n @ ss)"
proof (induction h)
  case Nil
  then show ?case by auto
next
  case (Cons c cs)
  have "(\<exists>ps ss. c # cs = ps @ n @ ss) \<longleftrightarrow>
        (\<exists>r. c # cs = n @ r) \<or> (\<exists>ps ss. cs = ps @ n @ ss)"
    by (auto simp: Cons_eq_append_conv)
  then show ?case
    by (simp add: Cons startswith_iff)
qed

lemma contains_lower_iff:
  "str_contains (lower p) (lower t) \<longleftrightarrow> occurs_ignoring_case p t"
proof
  assume "str_contains (lower p) (lower t)"
  then obtain ps ss where "map char_lower t = ps @ map char_lower p @ ss"
    unfolding str_contains_iff lower_def by blast
  then obtain b r where t: "t = b @ r" and "map char_lower r = map char_lower p @ ss"
    by (metis map_eq_append_conv)
  then obtain part a where "r = part @ a" and "map char_lower part = map char_lower p"
    by (metis map_eq_append_conv)
  with t show "occurs_ignoring_case p t"
    unfolding occurs_ignoring_case_def lower_def by blast
next
  assume "occurs_ignoring_case p t"
  then obtain b part a where "t = b @ part @ a" and "lower part = lower p"
    unfolding occurs_ignoring_case_def by blast
  then have "lower t = lower b @ lower p @ lower a"
    by (simp add: lower_def)
  then show "str_contains (lower p) (lower t)"
    unfolding str_contains_iff by blast
qed

lemma limit_indicators_lower: "ind \<in> set limit_indicators \<Longrightarrow> lower ind = ind"
  by (auto simp: limit_indicators_def lower_def char_lower_def ascii_upper_def ascii_lower_def)

lemma check_token_limit_iff:
  "check_token_limit_in_output stdout stderr \<longleftrightarrow>
     (\<exists>phrase \<in> set limit_indicators. occurs_ignoring_case phrase (stdout @ stderr))"
proof -
  have "str_contains ind (lower (stdout @ stderr)) \<longleftrightarrow>
        occurs_ignoring_case ind (stdout @ stderr)"
    if "ind \<in> set limit_indicators" for ind
    using contains_lower_iff [of ind "stdout @ stderr"] limit_indicators_lower [OF that]
    by simp
  then show ?thesis
    by (auto simp: check_token_limit_in_output_def list_ex_iff)
qed

lemma session_result_fields:
  "cr_stdout (start_new_claude_session ex p) = cp_stdout p"
  "cr_stderr (start_new_claude_session ex p) = cp_stderr p"
  "cr_return_code (start_new_claude_session ex p) = cp_returncode p"
  "cr_stdout (resume_claude_session s p) = cp_stdout p"
  "cr_stderr (resume_claude_session s p) = cp_stderr p"
  "cr_return_code (resume_claude_session s p) = cp_returncode p"
  by (simp_all add: start_new_claude_session_def resume_claude_session_def)

text \<open>
  Claim C3. Whatever the subprocess prints and whatever its exit code, the result of
  \<open>execute_task\<close> has its success flag set exactly when the exit code is 0 and none of
  the fixed phrases occurs, ignoring case, in stdout followed by stderr; and its
  quota flag \<open>token_limit_hit\<close> is set exactly when one of the phrases occurs there.
\<close>

theorem execute_task_success_iff:
  "(er_success (execute_task ex wp sid timeout elapsed initial final (Exited p)) \<longleftrightarrow>
      cp_returncode p = 0 \<and>
      \<not> (\<exists>phrase \<in> set limit_indicators.
            occurs_ignoring_case phrase (cp_stdout p @ cp_stderr p))) \<and>
   (er_token_limit_hit (execute_task ex wp sid timeout elapsed initial final (Exited p)) \<longleftrightarrow>
      (\<exists>phrase \<in> set limit_indicators.
            occurs_ignoring_case phrase (cp_stdout p @ cp_stderr p)))"
  by (cases sid)
     (simp_all add: execute_task_def Let_def session_result_fields check_token_limit_iff)

theorem execute_task_success_iff_witness:
  "(\<exists>phrase \<in> set limit_indicators.
      occurs_ignoring_case phrase (''HTTP 429: Too Many'' @ '' Requests, retry later'')) \<and>
   \<not> (\<exists>phrase \<in> set limit_indicators.
      occurs_ignoring_case phrase (''All done'' @ ''rate-limit''))"
proof -
  let ?hit = "\<lparr>cp_stdout = ''HTTP 429: Too Many'', cp_stderr = '' Requests, retry later'',
               cp_returncode = 0\<rparr>"
  let ?ok = "\<lparr>cp_stdout = ''All done'', cp_stderr = ''rate-limit'', cp_returncode = 0\<rparr>"
  have "er_token_limit_hit (execute_task (\<lambda>_. None) ''w'' None None 1 [] [] (Exited ?hit))"
    by code_simp
  moreover
  have "er_success (execute_task (\<lambda>_. None) ''w'' None None 1 [] [] (Exited ?ok))"
    by code_simp
  ultimately show ?thesis
    using execute_task_success_iff [of "\<lambda>_. None" "''w''" None None 1 "[]" "[]" ?hit]
      execute_task_success_iff [of "\<lambda>_. None" "''w''" None None 1 "[]" "[]" ?ok]
    by simp
qed

lemma in_dict_keys: "k \<in> set (dict_keys d) \<longleftrightarrow> dict_has d k"
  by (simp add: dict_keys_def dict_has_def map_of_eq_None_iff)

lemma dict_has_iff: "dict_has d k \<longleftrightarrow> (\<exists>v. map_of d k = Some v)"
  by (simp add: dict_has_def)

lemma set_detect_file_changes:
  "set (detect_file_changes initial final wp) =
     {f. dict_has final f \<and> \<not> dict_has initial f} \<union>
     {f. \<exists>ti tf. map_of initial f = Some ti \<and> map_of final f = Some tf \<and> ti < tf}"
  by (auto simp: detect_file_changes_def in_dict_keys dict_has_iff split: option.splits)

lemma detect_file_changes_same: "detect_file_changes s s wp = []"
  by (auto simp: detect_file_changes_def in_dict_keys dict_has_iff filter_empty_conv
      split: option.splits)

lemma filter_eq_single:
  "distinct xs \<Longrightarrow> f \<in> set xs \<Longrightarrow> filter (\<lambda>x. x = f) xs = [f]"
  by (induction xs) (auto simp: filter_empty_conv)

lemma detect_file_changes_one_added:
  assumes "distinct (dict_keys final)" "\<not> dict_has initial f"
    "map_of final = (map_of initial)(f \<mapsto> t)"
  shows "detect_file_changes initial final wp = [f]"
proof -
  have k: "g \<in> set (dict_keys final) \<longleftrightarrow> g = f \<or> dict_has initial g" for g
    using assms(3) by (auto simp: in_dict_keys dict_has_iff)
  have "filter (\<lambda>g. \<not> dict_has initial g) (dict_keys final) =
        filter (\<lambda>g. g = f) (dict_keys final)"
    using k assms(2) by (intro filter_cong) auto
  also have "\<dots> = [f]"
    using assms(1) k by (intro filter_eq_single) auto
  finally have new: "filter (\<lambda>g. \<not> dict_has initial g) (dict_keys final) = [f]" .
  have "filter (\<lambda>file_path. dict_has final file_path \<and>
                  (case (map_of final file_path, map_of initial file_path) of
                     (Some tf, Some ti) \<Rightarrow> tf > ti
                   | _ \<Rightarrow> False))
               (dict_keys initial) = []"
    using assms(2,3)
    by (auto simp: filter_empty_conv in_dict_keys dict_has_iff split: option.splits)
  with new show ?thesis
    by (simp add: detect_file_changes_def)
qed

text \<open>
  Claim C9. For every two snapshots (relative path to modification time) the list of
  changed files holds exactly the paths that are in the final snapshot and not in the
  initial one, and the paths that are in both with a strictly larger modification time in
  the final one. A path that is only in the initial snapshot (a deleted file) is never in
  the list. Two identical snapshots give the empty list, and a final snapshot that is the
  initial one with one more file \<open>f\<close> gives exactly \<open>[f]\<close>.
\<close>

theorem detect_file_changes_exact:
  "set (detect_file_changes initial final wp) =
     {f. dict_has final f \<and> \<not> dict_has initial f} \<union>
     {f. \<exists>ti tf. map_of initial f = Some ti \<and> map_of final f = Some tf \<and> ti < tf} \<and>
   (dict_has initial g \<and> \<not> dict_has final g \<longrightarrow>
      g \<notin> set (detect_file_changes initial final wp)) \<and>
   detect_file_changes initial initial wp = [] \<and>
   (distinct (dict_keys final) \<and> \<not> dict_has initial f \<and>
      map_of final = (map_of initial)(f \<mapsto> t) \<longrightarrow>
      detect_file_changes initial final wp = [f])"
proof (intro conjI impI)
  show "set (detect_file_changes initial final wp) =
     {f. dict_has final f \<and> \<not> dict_has initial f} \<union>
     {f. \<exists>ti tf. map_of initial f = Some ti \<and> map_of final f = Some tf \<and> ti < tf}"
    by (rule set_detect_file_changes)
  show "g \<notin> set (detect_file_changes initial final wp)"
    if "dict_has initial g \<and> \<not> dict_has final g"
    using that by (auto simp: set_detect_file_changes dict_has_iff)
  show "detect_file_changes initial initial wp = []"
    by (rule detect_file_changes_same)
  show "detect_file_changes initial final wp = [f]"
    if "distinct (dict_keys final) \<and> \<not> dict_has initial f \<and>
        map_of final = (map_of initial)(f \<mapsto> t)"
    using that detect_file_changes_one_added by blast
qed

theorem detect_file_changes_exact_witness:
  "''old.py'' \<notin> set (detect_file_changes
      [(''main.py'', 100), (''old.py'', 100)] [(''new.py'', 120), (''main.py'', 100)] ''w'') \<and>
   detect_file_changes
      [(''main.py'', 100), (''old.py'', 100)] [(''new.py'', 120), (''main.py'', 100)] ''w'' =
      [''new.py'']"
proof -
  let ?i = "[(''main.py'', 100), (''old.py'', 100)] :: snapshot"
  let ?f = "[(''new.py'', 120), (''main.py'', 100)] :: snapshot"
  have h: "dict_has ?i ''old.py'' \<and> \<not> dict_has ?f ''old.py''"
    by (simp add: dict_has_def)
  have "''old.py'' \<notin> set (detect_file_changes ?i ?f ''w'')"
    using detect_file_changes_exact [of ?i ?f "''w''" "''old.py''"] h by blast
  moreover have "detect_file_changes ?i ?f ''w'' = [''new.py'']"
    by (simp add: detect_file_changes_def dict_has_def dict_keys_def)
  ultimately show ?thesis
    by blast
qed

section \<open>Properties of the task store\<close>

lemma opt_str_yopt: "opt_str (Some (yopt v)) = v"
  by (cases v) (simp_all add: opt_str_def yopt_def)

lemma task_of_dict_asdict: "task_of_dict now (asdict t) = Inr t"
proof -
  have a: "filter (\<lambda>k. k \<notin> set field_names) (dict_keys (asdict t)) = []"
    by (simp add: asdict_def dict_keys_def field_names_def str_fields_def opt_str_fields_def
        int_fields_def)
  have b: "filter (\<lambda>k. \<not> dict_has (asdict t) k) required_fields = []"
    by (simp add: asdict_def dict_has_def required_fields_def)
  have c: "filter (\<lambda>(k, v). \<not> fits k v) (asdict t) = []"
    by (simp add: asdict_def fits_def yopt_def str_fields_def opt_str_fields_def int_fields_def
        split: option.splits)
  show ?thesis
    unfolding task_of_dict_def a b c
    by (simp add: asdict_def str_or_def int_or_def opt_str_yopt)
qed

lemma tasks_of_dicts_asdict: "tasks_of_dicts now (map asdict ts) = Inr ts"
  by (induction ts) (simp_all add: task_of_dict_asdict)

lemma save_tasks_ok:
  assumes "has_meta file"
  shows "\<exists>data. save_tasks now file ts = Inr (Some data) \<and>
           td_tasks data = Some (map asdict ts) \<and> td_meta data \<noteq> None"
  using assms
  by (auto simp: save_tasks_def save_tasks_data_def load_tasks_data_def has_meta_def
      default_data_def split: option.splits)

lemma save_then_load:
  assumes "has_meta file"
  shows "\<exists>file'. save_tasks now file ts = Inr file' \<and> load_tasks now' file' = Inr ts \<and>
           has_meta file'"
proof -
  from save_tasks_ok [OF assms] obtain data where
    s: "save_tasks now file ts = Inr (Some data)" and
    t: "td_tasks data = Some (map asdict ts)" and m: "td_meta data \<noteq> None"
    by blast
  have "load_tasks now' (Some data) = Inr ts"
    by (simp add: load_tasks_def load_tasks_data_def t tasks_of_dicts_asdict)
  with s m show ?thesis
    by (auto simp: has_meta_def)
qed

text \<open>
  Claim C6. For every list of tasks: when \<open>save_tasks\<close> has written the list, \<open>load_tasks\<close>
  answers a list equal to it, task by task and field by field. Saving raises only when
  the file it rewrites holds a document without its \<open>meta\<close> mapping; on a missing,
  unreadable or empty file, and on every file the manager wrote, it succeeds.
\<close>

theorem save_then_load_tasks:
  "(save_tasks now file tasks = Inr file' \<longrightarrow> load_tasks now' file' = Inr tasks) \<and>
   (has_meta file \<longrightarrow> (\<exists>written. save_tasks now file tasks = Inr written))"
proof (intro conjI impI)
  assume s: "save_tasks now file tasks = Inr file'"
  then obtain data where "file' = Some data" and "td_tasks data = Some (map asdict tasks)"
    by (auto simp: save_tasks_def save_tasks_data_def Let_def split: option.splits)
  then show "load_tasks now' file' = Inr tasks"
    by (simp add: load_tasks_def load_tasks_data_def tasks_of_dicts_asdict)
next
  assume "has_meta file"
  from save_tasks_ok [OF this] show "\<exists>written. save_tasks now file tasks = Inr written"
    by blast
qed

theorem save_then_load_tasks_witness:
  "\<exists>written.
     save_tasks ''12:00'' None
       [new_task ''11:00'' ''task-001'' ''Write tests'' ''unit tests'' ''default'',
        (new_task ''11:30'' ''task-002'' ''Fix bug'' ''crash'' ''default'')
          \<lparr>tc_status := ''failed'', tc_attempts := 3, tc_last_error := Some ''boom''\<rparr>] =
       Inr written \<and>
     load_tasks ''13:00'' written =
       Inr [new_task ''11:00'' ''task-001'' ''Write tests'' ''unit tests'' ''default'',
            (new_task ''11:30'' ''task-002'' ''Fix bug'' ''crash'' ''default'')
              \<lparr>tc_status := ''failed'', tc_attempts := 3, tc_last_error := Some ''boom''\<rparr>]"
proof -
  let ?ts = "[new_task ''11:00'' ''task-001'' ''Write tests'' ''unit tests'' ''default'',
        (new_task ''11:30'' ''task-002'' ''Fix bug'' ''crash'' ''default'')
          \<lparr>tc_status := ''failed'', tc_attempts := 3, tc_last_error := Some ''boom''\<rparr>]"
  have "has_meta None"
    by (simp add: has_meta_def)
  with save_then_load_tasks [of "''12:00''" None ?ts]
  obtain written where w: "save_tasks ''12:00'' None ?ts = Inr written"
    by blast
  with save_then_load_tasks [of "''12:00''" None ?ts written "''13:00''"]
  have "load_tasks ''13:00'' written = Inr ?ts"
    by blast
  with w show ?thesis
    by blast
qed

lemma update_first_None:
  "task_id \<notin> tc_id ` set tasks \<Longrightarrow> update_first task_id ups tasks = None"
  by (induction tasks) auto

lemma update_first_Some:
  assumes "task_id \<in> tc_id ` set tasks"
  shows "\<exists>t0 tasks'. find (\<lambda>t. tc_id t = task_id) tasks = Some t0 \<and>
           update_first task_id ups tasks = Some tasks' \<and>
           (tc_id (fold setattr ups t0) = task_id \<longrightarrow>
              find (\<lambda>t. tc_id t = task_id) tasks' = Some (fold setattr ups t0))"
  using assms by (induction tasks) auto

lemma update_task_found:
  assumes l: "load_tasks now file = Inr tasks" and i: "task_id \<in> tc_id ` set tasks"
    and m: "has_meta file" and k: "\<And>t. tc_id (fold setattr ups t) = tc_id t"
  shows "\<exists>file' t0. get_task now file task_id = Inr (Some t0) \<and>
           update_task now file task_id ups = Inr (True, file') \<and> has_meta file' \<and>
           get_task now' file' task_id = Inr (Some (fold setattr ups t0))"
proof -
  from update_first_Some [OF i, of ups] obtain t0 tasks' where
    f: "find (\<lambda>t. tc_id t = task_id) tasks = Some t0" and
    u: "update_first task_id ups tasks = Some tasks'" and
    g: "tc_id (fold setattr ups t0) = task_id \<longrightarrow>
          find (\<lambda>t. tc_id t = task_id) tasks' = Some (fold setattr ups t0)"
    by blast
  from f have "tc_id t0 = task_id"
    by (auto simp: find_Some_iff)
  with g k have g': "find (\<lambda>t. tc_id t = task_id) tasks' = Some (fold setattr ups t0)"
    by simp
  from save_then_load [OF m, of now tasks' now'] obtain file' where
    s: "save_tasks now file tasks' = Inr file'" and
    l': "load_tasks now' file' = Inr tasks'" and m': "has_meta file'"
    by blast
  have "update_task now file task_id ups = Inr (True, file')"
    by (simp add: update_task_def l u s)
  moreover have "get_task now' file' task_id = Inr (Some (fold setattr ups t0))"
    by (simp add: get_task_def l' g')
  moreover have "get_task now file task_id = Inr (Some t0)"
    by (simp add: get_task_def l f)
  ultimately show ?thesis
    using m' by blast
qed

text \<open>
  Claim C5. For every task id that is in the store, whatever the status of its task:
  \<open>reset_task\<close> answers \<open>True\<close>, and the task read back under that id has the status
  \<open>pending\<close> and \<open>None\<close> in \<open>started_at\<close>, \<open>completed_at\<close>, \<open>last_error\<close> and
  \<open>session_id\<close>; its other fields are as before. The store is a file that loads, with
  the \<open>meta\<close> mapping every written file has.
\<close>

theorem reset_task_yields_pending:
  assumes "load_tasks now file = Inr tasks" and "task_id \<in> tc_id ` set tasks"
    and "has_meta file"
  shows "\<exists>file' t0 t. get_task now file task_id = Inr (Some t0) \<and>
           reset_task now file task_id = Inr (True, file') \<and>
           get_task now' file' task_id = Inr (Some t) \<and>
           tc_status t = ''pending'' \<and> tc_started_at t = None \<and> tc_completed_at t = None \<and>
           tc_last_error t = None \<and> tc_session_id t = None \<and>
           t = t0\<lparr>tc_status := ''pending'', tc_started_at := None, tc_completed_at := None,
                  tc_last_error := None, tc_session_id := None\<rparr>"
proof -
  let ?ups = "[Status ''pending'', Started_at None, Completed_at None, Last_error None,
               Session_id None]"
  have "\<And>t. tc_id (fold setattr ?ups t) = tc_id t"
    by simp
  from update_task_found [OF assms this, of now'] show ?thesis
    by (auto simp: reset_task_def)
qed

theorem reset_task_yields_pending_witness:
  "\<exists>file' t.
     reset_task ''12:00''
       (Some \<lparr>td_meta = Some [(''version'', YStr ''1.0'')],
              td_tasks = Some [asdict ((new_task ''11:30'' ''task-002'' ''Fix bug'' ''crash'' ''default'')
                \<lparr>tc_status := ''failed'', tc_started_at := Some ''11:40'',
                  tc_completed_at := Some ''11:50'', tc_attempts := 3,
                  tc_last_error := Some ''boom'', tc_session_id := Some ''s-1''\<rparr>)]\<rparr>)
       ''task-002'' = Inr (True, file') \<and>
     get_task ''13:00'' file' ''task-002'' = Inr (Some t) \<and>
     tc_status t = ''pending'' \<and> tc_started_at t = None \<and> tc_completed_at t = None \<and>
     tc_last_error t = None \<and> tc_session_id t = None \<and> tc_attempts t = 3"
proof -
  let ?t = "(new_task ''11:30'' ''task-002'' ''Fix bug'' ''crash'' ''default'')
                \<lparr>tc_status := ''failed'', tc_started_at := Some ''11:40'',
                  tc_completed_at := Some ''11:50'', tc_attempts := 3,
                  tc_last_error := Some ''boom'', tc_session_id := Some ''s-1''\<rparr>"
  let ?file = "Some \<lparr>td_meta = Some [(''version'', YStr ''1.0'')],
                     td_tasks = Some [asdict ?t]\<rparr>"
  have l: "load_tasks ''12:00'' ?file = Inr [?t]"
    by (simp add: load_tasks_def load_tasks_data_def task_of_dict_asdict)
  have i: "''task-002'' \<in> tc_id ` set [?t]"
    by (simp add: new_task_def)
  have m: "has_meta ?file"
    by (simp add: has_meta_def)
  have g: "get_task ''12:00'' ?file ''task-002'' = Inr (Some ?t)"
    unfolding get_task_def l by (simp add: new_task_def)
  from reset_task_yields_pending [OF l i m, of "''13:00''"] g show ?thesis
    by (auto simp: new_task_def)
qed

lemma update_task_unknown:
  assumes "load_tasks now file = Inr tasks" and "task_id \<notin> tc_id ` set tasks"
  shows "update_task now file task_id ups = Inr (False, file)"
  using assms by (simp add: update_task_def update_first_None)

text \<open>
  Claim C10. For every task id that is not in the store, \<open>update_task\<close> answers \<open>False\<close>
  and the file is the one it was given: nothing is written. The same holds for
  \<open>mark_task_running\<close>, \<open>mark_task_completed\<close>, \<open>mark_task_failed\<close>, \<open>mark_task_paused\<close>
  and \<open>reset_task\<close>, which all go through \<open>update_task\<close>.
\<close>

theorem update_unknown_id:
  assumes "load_tasks now file = Inr tasks" and "task_id \<notin> tc_id ` set tasks"
  shows "update_task now file task_id updates = Inr (False, file) \<and>
         mark_task_running now file task_id session_id = Inr (False, file) \<and>
         mark_task_completed now file task_id = Inr (False, file) \<and>
         mark_task_failed now file task_id err = Inr (False, file) \<and>
         mark_task_paused now file task_id reason = Inr (False, file) \<and>
         reset_task now file task_id = Inr (False, file)"
  using assms
  by (simp add: update_task_unknown mark_task_running_def mark_task_completed_def
      mark_task_failed_def mark_task_paused_def reset_task_def get_task_def)

theorem update_unknown_id_witness:
  "update_task ''12:00'' store_003_005 ''task-004'' [Status ''running''] =
     Inr (False, store_003_005) \<and>
   mark_task_running ''12:00'' store_003_005 ''task-004'' (Some ''s-1'') =
     Inr (False, store_003_005) \<and>
   mark_task_completed ''12:00'' store_003_005 ''task-004'' = Inr (False, store_003_005) \<and>
   mark_task_failed ''12:00'' store_003_005 ''task-004'' ''boom'' =
     Inr (False, store_003_005) \<and>
   mark_task_paused ''12:00'' store_003_005 ''task-004'' ''quota'' =
     Inr (False, store_003_005) \<and>
   reset_task ''12:00'' store_003_005 ''task-004'' = Inr (False, store_003_005)"
proof -
  let ?ts = "[new_task ''t'' ''task-003'' ''c'' ''d'' ''default'',
              new_task ''t'' ''task-005'' ''e'' ''d'' ''default'']"
  have l: "load_tasks ''12:00'' store_003_005 = Inr ?ts"
    by (simp add: store_003_005_def load_tasks_def load_tasks_data_def task_of_dict_asdict)
  have i: "''task-004'' \<notin> tc_id ` set ?ts"
    by (simp add: new_task_def)
  show ?thesis
    by (rule update_unknown_id [OF l i])
qed

lemma unused_id_loop_stuck:
  assumes hit: "list_ex (\<lambda>t. tc_id t = c) tasks"
    and again: "task_id_of (length tasks + 1 +
                  length (filter (\<lambda>t. startswith (tc_id t) ''task-'') tasks)) = c"
  shows "unused_id_loop tasks c = None"
proof (rule ccontr)
  assume "unused_id_loop tasks c \<noteq> None"
  then obtain y where y: "unused_id_loop tasks c = Some y"
    by blast
  have "\<not> (list_ex (\<lambda>t. tc_id t = c) tasks \<and>
           task_id_of (length tasks + 1 +
             length (filter (\<lambda>t. startswith (tc_id t) ''task-'') tasks)) = c)"
  proof (rule unused_id_loop.raw_induct
      [where P = "\<lambda>ts cand y. \<not> (list_ex (\<lambda>t. tc_id t = cand) ts \<and>
           task_id_of (length ts + 1 +
             length (filter (\<lambda>t. startswith (tc_id t) ''task-'') ts)) = cand)", OF _ y])
    fix loop ts cand r
    assume ih: "\<And>ts cand r. loop ts cand = Some r \<Longrightarrow>
        \<not> (list_ex (\<lambda>t. tc_id t = cand) ts \<and>
           task_id_of (length ts + 1 +
             length (filter (\<lambda>t. startswith (tc_id t) ''task-'') ts)) = cand)"
      and step: "(if list_ex (\<lambda>t. tc_id t = cand) ts
                  then loop ts (task_id_of (length ts + 1 +
                         length (filter (\<lambda>t. startswith (tc_id t) ''task-'') ts)))
                  else Some cand) = Some r"
    show "\<not> (list_ex (\<lambda>t. tc_id t = cand) ts \<and>
           task_id_of (length ts + 1 +
             length (filter (\<lambda>t. startswith (tc_id t) ''task-'') ts)) = cand)"
    proof
      assume a: "list_ex (\<lambda>t. tc_id t = cand) ts \<and>
           task_id_of (length ts + 1 +
             length (filter (\<lambda>t. startswith (tc_id t) ''task-'') ts)) = cand"
      with step have "loop ts cand = Some r"
        by simp
      from ih [OF this] a show False
        by blast
    qed
  qed
  with hit again show False
    by blast
qed

lemma replicate_small: "replicate 2 x = [x, x]" "replicate 1 x = [x]"
  by (simp_all add: numeral_2_eq_2)

lemma tc_id_new_task: "tc_id (new_task now i a b c) = i"
  by (simp add: new_task_def)

lemmas store_eval = add_task_def load_tasks_def load_tasks_data_def default_data_def
  unused_id_loop.simps Let_def save_tasks_def save_tasks_data_def task_id_of_def format_03d_def
  digit_char_def replicate_small delete_task_def task_of_dict_asdict tc_id_new_task

lemma load_store_003_005:
  "load_tasks now store_003_005 =
     Inr [new_task ''t'' ''task-003'' ''c'' ''d'' ''default'',
          new_task ''t'' ''task-005'' ''e'' ''d'' ''default'']"
  by (simp add: store_003_005_def load_tasks_def load_tasks_data_def task_of_dict_asdict)

text \<open>
  Claim C2 says that \<open>add_task\<close> always returns, with a task whose id is new. The code
  does not: five tasks added to an empty store and \<open>task-001\<close>, \<open>task-002\<close> and
  \<open>task-004\<close> deleted leave the store \<open>store_003_005\<close>, and there the loop that looks for
  an unused id tries \<open>task-003\<close>, then \<open>task-005\<close> again and again: \<open>add_task\<close> never
  returns.
\<close>

theorem add_task_never_returns:
  "run_ops ''t''
     [Add ''a'' ''d'' ''default'', Add ''b'' ''d'' ''default'', Add ''c'' ''d'' ''default'',
      Add ''d'' ''d'' ''default'', Add ''e'' ''d'' ''default'',
      Delete ''task-001'', Delete ''task-002'', Delete ''task-004''] None =
     Some store_003_005 \<and>
   add_task now store_003_005 title description prompt_template = None"
proof
  show "run_ops ''t''
     [Add ''a'' ''d'' ''default'', Add ''b'' ''d'' ''default'', Add ''c'' ''d'' ''default'',
      Add ''d'' ''d'' ''default'', Add ''e'' ''d'' ''default'',
      Delete ''task-001'', Delete ''task-002'', Delete ''task-004''] None =
     Some store_003_005"
    by (simp add: store_eval store_003_005_def)
  let ?ts = "[new_task ''t'' ''task-003'' ''c'' ''d'' ''default'',
              new_task ''t'' ''task-005'' ''e'' ''d'' ''default'']"
  have five: "task_id_of (length ?ts + 1 +
                length (filter (\<lambda>t. startswith (tc_id t) ''task-'') ?ts)) = ''task-005''"
    by (simp add: tc_id_new_task task_id_of_def format_03d_def digit_char_def replicate_small)
  have "unused_id_loop ?ts ''task-005'' = None"
    by (rule unused_id_loop_stuck) (simp add: tc_id_new_task, rule five)
  moreover have "task_id_of (length ?ts + 1) = ''task-003''"
    by (simp add: task_id_of_def format_03d_def digit_char_def replicate_small)
  moreover have "unused_id_loop ?ts ''task-003'' = unused_id_loop ?ts ''task-005''"
    by (subst unused_id_loop.simps)
       (simp add: tc_id_new_task task_id_of_def format_03d_def digit_char_def replicate_small)
  ultimately have "unused_id_loop ?ts (task_id_of (length ?ts + 1)) = None"
    by simp
  then show "add_task now store_003_005 title description prompt_template = None"
    by (simp add: add_task_def load_store_003_005)
qed

section \<open>Properties of the token monitor\<close>

text \<open>
  Claim C4. \<open>can_run_tasks\<close> answers false when the status check gave nothing. For a
  status whose \<open>percentage_used\<close> is at or above the critical threshold it answers false
  with a reason that contains the words \<open>critical threshold\<close>; for a status whose
  \<open>percentage_used\<close> is strictly below the critical threshold it answers true. The
  witness takes the default thresholds with the usages 0.96 and 0.2.
\<close>

theorem can_run_tasks_decision:
  "fst (can_run_tasks percent_text monitor None) = False \<and>
   (tu_percentage_used st \<ge> tm_critical_threshold monitor \<longrightarrow>
      fst (can_run_tasks percent_text monitor (Some st)) = False \<and>
      str_contains ''critical threshold'' (snd (can_run_tasks percent_text monitor (Some st)))) \<and>
   (tu_percentage_used st < tm_critical_threshold monitor \<longrightarrow>
      fst (can_run_tasks percent_text monitor (Some st)) = True)"
proof (intro conjI impI)
  show "fst (can_run_tasks percent_text monitor None) = False"
    by (simp add: can_run_tasks_def)
next
  assume c: "tm_critical_threshold monitor \<le> tu_percentage_used st"
  then show "fst (can_run_tasks percent_text monitor (Some st)) = False"
    by (simp add: can_run_tasks_def Let_def)
  have split: "'', above critical threshold'' = '', above '' @ ''critical threshold''"
    by simp
  from c obtain time_str where
    "snd (can_run_tasks percent_text monitor (Some st)) =
       (''Token usage at '' @ percent_text @ '', above '') @
       ''critical threshold'' @ time_str"
    unfolding can_run_tasks_def Let_def split by simp
  then show "str_contains ''critical threshold''
      (snd (can_run_tasks percent_text monitor (Some st)))"
    unfolding str_contains_iff by blast
next
  assume "tu_percentage_used st < tm_critical_threshold monitor"
  then show "fst (can_run_tasks percent_text monitor (Some st)) = True"
    by (simp add: can_run_tasks_def)
qed

theorem can_run_tasks_decision_witness:
  "fst (can_run_tasks ''96.0%'' default_monitor
     (Some \<lparr>tu_messages_used = 216, tu_messages_limit = 225,
            tu_percentage_used = 1080863910568919 / 1125899906842624,
            tu_time_until_reset = Some 5400, tu_plan = Some MAX_5X,
            tu_raw_output = ''216/225 messages'', tu_timestamp = ''10:00''\<rparr>)) = False \<and>
   str_contains ''critical threshold'' (snd (can_run_tasks ''96.0%'' default_monitor
     (Some \<lparr>tu_messages_used = 216, tu_messages_limit = 225,
            tu_percentage_used = 1080863910568919 / 1125899906842624,
            tu_time_until_reset = Some 5400, tu_plan = Some MAX_5X,
            tu_raw_output = ''216/225 messages'', tu_timestamp = ''10:00''\<rparr>))) \<and>
   fst (can_run_tasks ''20.0%'' default_monitor
     (Some \<lparr>tu_messages_used = 45, tu_messages_limit = 225,
            tu_percentage_used = 3602879701896397 / 18014398509481984,
            tu_time_until_reset = None, tu_plan = Some MAX_5X,
            tu_raw_output = ''45/225 messages'', tu_timestamp = ''10:00''\<rparr>)) = True"
proof -
  let ?high = "\<lparr>tu_messages_used = 216, tu_messages_limit = 225,
            tu_percentage_used = 1080863910568919 / 1125899906842624,
            tu_time_until_reset = Some 5400, tu_plan = Some MAX_5X,
            tu_raw_output = ''216/225 messages'', tu_timestamp = ''10:00''\<rparr>"
  let ?low = "\<lparr>tu_messages_used = 45, tu_messages_limit = 225,
            tu_percentage_used = 3602879701896397 / 18014398509481984,
            tu_time_until_reset = None, tu_plan = Some MAX_5X,
            tu_raw_output = ''45/225 messages'', tu_timestamp = ''10:00''\<rparr>"
  have h: "tu_percentage_used ?high \<ge> tm_critical_threshold default_monitor"
    by (simp add: default_monitor_def)
  have l: "tu_percentage_used ?low < tm_critical_threshold default_monitor"
    by (simp add: default_monitor_def)
  from can_run_tasks_decision [of "''96.0%''" default_monitor ?high] h
    can_run_tasks_decision [of "''20.0%''" default_monitor ?low] l
  show ?thesis
    by blast
qed

section \<open>Properties of the workspace manager\<close>

lemma map_of_dict_set: "map_of (dict_set d k v) k' = (if k' = k then Some v else map_of d k')"
  by (induction d k v rule: dict_set.induct) auto


lemmas os_eval = plain_os_def locked_os_def python_only_def never_def is_dir_of_b_def
  new_manager_def mkdir_parents_def create_workspace_def Let_def fresh_manager_def

text \<open>
  When \<open>create_workspace\<close> returns a path, the task id is registered with that path,
  and a further call for the id returns it again and changes nothing.
\<close>

lemma create_workspace_registered:
  assumes "create_workspace os now suffix w task_id template_name temporary = (Inr p, w1)"
  shows "(\<exists>info. map_of (active_workspaces w1) task_id = Some info \<and>
            wi_workspace_path info = p) \<and>
         create_workspace os now2 suffix2 w1 task_id template2 temporary2 = (Inr p, w1)"
  using assms
  by (cases "map_of (active_workspaces w) task_id")
     (auto simp: create_workspace_def Let_def map_of_dict_set split: if_splits)

lemma fresh_manager_state:
  "active_workspaces fresh_manager = []"
  "directories fresh_manager =
     [['''', ''srv'', ''workspaces''], ['''', ''srv''], [''''], []]"
  by (simp_all add: os_eval)

text \<open>
  Claim C7 says that two calls of \<open>create_workspace\<close> for one task id return the same
  path and make no second directory. The code does not do that: on a new manager a call
  without a template makes its temporary directory and then raises \<open>NameError\<close>, before
  the workspace is registered; the second call for the id makes a second directory and
  raises again. No path is returned and nothing is registered.
\<close>

theorem create_workspace_twice_raises:
  "fst (create_workspace plain_os ''t1'' ''k3v9q_xa'' fresh_manager ''task-001'' None True) =
     Inl (NameError ''datetime'') \<and>
   fst (create_workspace plain_os ''t2'' ''p0w2m7zt''
          (snd (create_workspace plain_os ''t1'' ''k3v9q_xa'' fresh_manager
                  ''task-001'' None True))
          ''task-001'' None True) =
     Inl (NameError ''datetime'') \<and>
   active_workspaces
     (snd (create_workspace plain_os ''t2'' ''p0w2m7zt''
        (snd (create_workspace plain_os ''t1'' ''k3v9q_xa'' fresh_manager
                ''task-001'' None True))
        ''task-001'' None True)) = [] \<and>
   directories
     (snd (create_workspace plain_os ''t2'' ''p0w2m7zt''
        (snd (create_workspace plain_os ''t1'' ''k3v9q_xa'' fresh_manager
                ''task-001'' None True))
        ''task-001'' None True)) =
     [['''', ''srv'', ''workspaces'', ''task_task-001_p0w2m7zt''],
      ['''', ''srv'', ''workspaces'', ''task_task-001_k3v9q_xa''],
      ['''', ''srv'', ''workspaces''], ['''', ''srv''], [''''], []]"
  by (simp add: os_eval)

lemma at_or_below_refl: "at_or_below d d"
  by (induction d) auto

lemma map_of_dict_del: "map_of (dict_del d k) k' = (if k' = k then None else map_of d k')"
  by (induction d) (auto simp: dict_del_def)

lemma in_dict_del: "x \<in> set (dict_del d k) \<longleftrightarrow> x \<in> set d \<and> fst x \<noteq> k"
  by (auto simp: dict_del_def)

lemma distinct_dict_del: "distinct (dict_keys d) \<Longrightarrow> distinct (dict_keys (dict_del d k))"
  by (simp add: dict_del_def dict_keys_def distinct_map_filter)

lemma length_dict_del:
  "distinct (dict_keys d) \<Longrightarrow> map_of d k = Some v \<Longrightarrow> Suc (length (dict_del d k)) = length d"
proof (induction d)
  case Nil
  then show ?case by simp
next
  case (Cons a d)
  obtain k' v' where a: "a = (k', v')" by (cases a)
  show ?case
  proof (cases "k' = k")
    case True
    with Cons.prems a have "k \<notin> fst ` set d"
      by (simp add: dict_keys_def)
    then have "filter (\<lambda>(k', v). k' \<noteq> k) d = d"
      by (intro filter_True) force
    with True a show ?thesis
      by (simp add: dict_del_def)
  next
    case False
    with Cons a show ?thesis
      by (simp add: dict_del_def dict_keys_def)
  qed
qed

lemma in_rmtree: "q \<in> set (rmtree t dirs) \<longleftrightarrow> q \<in> set dirs \<and> \<not> at_or_below t q"
  by (simp add: rmtree_def)

lemma in_rmtree_failed:
  "q \<in> set (rmtree_failed os t dirs) \<longleftrightarrow>
     q \<in> set dirs \<and> \<not> (at_or_below t q \<and> q \<noteq> t \<and> os_rmtree_lost os q)"
  by (simp add: rmtree_failed_def)

lemma cleanup_workspace_active:
  assumes "cleanup_workspace os w task_id False = (ok, w')"
  shows "set (active_workspaces w') \<subseteq> set (active_workspaces w)"
    and "distinct (dict_keys (active_workspaces w)) \<Longrightarrow>
           distinct (dict_keys (active_workspaces w'))"
    and "k \<noteq> task_id \<Longrightarrow> map_of (active_workspaces w') k = map_of (active_workspaces w) k"
    and "set (directories w') \<subseteq> set (directories w)"
    and "registry_file w = active_workspaces w \<Longrightarrow> registry_file w' = active_workspaces w'"
  using assms
  by (auto simp: cleanup_workspace_def Let_def map_of_dict_del distinct_dict_del in_rmtree
      in_rmtree_failed in_dict_del split: option.splits if_splits)

lemma cleanup_workspace_dirs:
  assumes "cleanup_workspace os w task_id False = (ok, w')"
    and "q \<in> set (directories w)"
    and "\<And>info. map_of (active_workspaces w) task_id = Some info \<Longrightarrow>
           \<not> at_or_below (os_resolve os (wi_workspace_path info)) q \<or>
           (os_rmtree_fails os (wi_workspace_path info) \<and>
            os_resolve os (wi_workspace_path info) = q)"
  shows "q \<in> set (directories w')"
  using assms
  by (auto simp: cleanup_workspace_def Let_def in_rmtree in_rmtree_failed
      split: option.splits if_splits)

lemma cleanup_workspace_removes:
  assumes "cleanup_workspace os w task_id False = (ok, w')"
    and "map_of (active_workspaces w) task_id = Some info"
    and "wi_is_temporary info"
    and "\<not> os_rmtree_fails os (wi_workspace_path info) \<or>
         os_resolve os (wi_workspace_path info) \<notin> set (directories w)"
  shows "ok \<and> \<not> dict_has (active_workspaces w') task_id \<and>
         os_resolve os (wi_workspace_path info) \<notin> set (directories w')"
  using assms
  by (auto simp: cleanup_workspace_def Let_def dict_has_def map_of_dict_del in_rmtree
      at_or_below_refl split: if_splits)

lemma cleanup_workspace_stays:
  assumes "cleanup_workspace os w task_id False = (ok, w')"
    and "map_of (active_workspaces w) task_id = Some info"
    and "wi_is_temporary info"
    and "os_rmtree_fails os (wi_workspace_path info)"
    and "os_resolve os (wi_workspace_path info) \<in> set (directories w)"
  shows "\<not> ok \<and> active_workspaces w' = active_workspaces w \<and>
         os_resolve os (wi_workspace_path info) \<in> set (directories w')"
  using assms
  by (auto simp: cleanup_workspace_def Let_def in_rmtree_failed split: if_splits)

lemma cleanup_workspace_count:
  assumes "cleanup_workspace os w task_id False = (ok, w')"
    and "distinct (dict_keys (active_workspaces w))"
    and "dict_has (active_workspaces w) task_id"
  shows "length (active_workspaces w') + (if ok then 1 else 0) = length (active_workspaces w)"
  using assms length_dict_del [of "active_workspaces w" task_id]
  by (auto simp: cleanup_workspace_def Let_def dict_has_def split: option.splits if_splits)

lemma cleanup_loop_mono:
  assumes "cleanup_loop os ids w n = (n', w')"
  shows "set (active_workspaces w') \<subseteq> set (active_workspaces w) \<and>
         set (directories w') \<subseteq> set (directories w) \<and>
         (distinct (dict_keys (active_workspaces w)) \<longrightarrow>
            distinct (dict_keys (active_workspaces w'))) \<and>
         (registry_file w = active_workspaces w \<longrightarrow> registry_file w' = active_workspaces w')"
  using assms
proof (induction ids arbitrary: w n)
  case Nil
  then show ?case by simp
next
  case (Cons task_id ids)
  obtain ok w1 where s: "cleanup_workspace os w task_id False = (ok, w1)"
    by (cases "cleanup_workspace os w task_id False")
  with Cons.prems have "cleanup_loop os ids w1 (if ok then n + 1 else n) = (n', w')"
    by simp
  from Cons.IH [OF this] cleanup_workspace_active [OF s] show ?case
    by blast
qed

lemma cleanup_loop_frame:
  assumes "cleanup_loop os ids w n = (n', w')" and "k \<notin> set ids"
  shows "map_of (active_workspaces w') k = map_of (active_workspaces w) k"
  using assms
proof (induction ids arbitrary: w n)
  case Nil
  then show ?case by simp
next
  case (Cons task_id ids)
  obtain ok w1 where s: "cleanup_workspace os w task_id False = (ok, w1)"
    by (cases "cleanup_workspace os w task_id False")
  with Cons.prems have r: "cleanup_loop os ids w1 (if ok then n + 1 else n) = (n', w')"
    by simp
  from Cons.prems have "k \<noteq> task_id" "k \<notin> set ids"
    by auto
  with Cons.IH [OF r] cleanup_workspace_active(3) [OF s] show ?case
    by simp
qed

lemma cleanup_loop_dirs:
  assumes "cleanup_loop os ids w n = (n', w')" and "q \<in> set (directories w)"
    and "distinct ids"
    and "\<And>task_id info. task_id \<in> set ids \<Longrightarrow>
           map_of (active_workspaces w) task_id = Some info \<Longrightarrow>
           \<not> at_or_below (os_resolve os (wi_workspace_path info)) q \<or>
           (os_rmtree_fails os (wi_workspace_path info) \<and>
            os_resolve os (wi_workspace_path info) = q)"
  shows "q \<in> set (directories w')"
  using assms
proof (induction ids arbitrary: w n)
  case Nil
  then show ?case by simp
next
  case (Cons task_id ids)
  obtain ok w1 where s: "cleanup_workspace os w task_id False = (ok, w1)"
    by (cases "cleanup_workspace os w task_id False")
  with Cons.prems have r: "cleanup_loop os ids w1 (if ok then n + 1 else n) = (n', w')"
    by simp
  have q1: "q \<in> set (directories w1)"
    by (rule cleanup_workspace_dirs [OF s Cons.prems(2)]) (use Cons.prems(4) in auto)
  have "\<not> at_or_below (os_resolve os (wi_workspace_path info)) q \<or>
        (os_rmtree_fails os (wi_workspace_path info) \<and>
         os_resolve os (wi_workspace_path info) = q)"
    if "k \<in> set ids" "map_of (active_workspaces w1) k = Some info" for k info
  proof -
    from that(1) Cons.prems(3) have "k \<noteq> task_id"
      by auto
    with cleanup_workspace_active(3) [OF s] that(2)
    have "map_of (active_workspaces w) k = Some info"
      by simp
    with Cons.prems(4) [of k info] that(1) show ?thesis
      by simp
  qed
  with Cons.IH [OF r q1] Cons.prems(3) show ?case
    by simp
qed

lemma cleanup_loop_removes:
  assumes "cleanup_loop os ids w n = (n', w')" and "task_id \<in> set ids"
    and "distinct ids"
    and "map_of (active_workspaces w) task_id = Some info"
    and "wi_is_temporary info"
    and "\<not> os_rmtree_fails os (wi_workspace_path info) \<or>
         os_resolve os (wi_workspace_path info) \<notin> set (directories w)"
  shows "\<not> dict_has (active_workspaces w') task_id \<and>
         os_resolve os (wi_workspace_path info) \<notin> set (directories w')"
  using assms(1-4,6)
proof (induction ids arbitrary: w n)
  case Nil
  then show ?case by simp
next
  case (Cons k ids)
  obtain ok w1 where s: "cleanup_workspace os w k False = (ok, w1)"
    by (cases "cleanup_workspace os w k False")
  with Cons.prems have r: "cleanup_loop os ids w1 (if ok then n + 1 else n) = (n', w')"
    by simp
  show ?case
  proof (cases "k = task_id")
    case True
    with cleanup_workspace_removes [OF s _ assms(5)] Cons.prems(4,5)
    have gone: "\<not> dict_has (active_workspaces w1) task_id"
      "os_resolve os (wi_workspace_path info) \<notin> set (directories w1)"
      by simp_all
    from cleanup_loop_mono [OF r] have
      "set (active_workspaces w') \<subseteq> set (active_workspaces w1)"
      "set (directories w') \<subseteq> set (directories w1)"
      by simp_all
    with gone show ?thesis
      by (auto simp: dict_has_def map_of_eq_None_iff)
  next
    case False
    with Cons.prems have "task_id \<in> set ids" "distinct ids"
      by auto
    moreover from False cleanup_workspace_active(3) [OF s] Cons.prems(4)
    have "map_of (active_workspaces w1) task_id = Some info"
      by simp
    moreover from cleanup_workspace_active(4) [OF s] Cons.prems(5)
    have "\<not> os_rmtree_fails os (wi_workspace_path info) \<or>
          os_resolve os (wi_workspace_path info) \<notin> set (directories w1)"
      by auto
    ultimately show ?thesis
      using Cons.IH [OF r] by simp
  qed
qed

lemma cleanup_loop_stays:
  assumes "cleanup_loop os ids w n = (n', w')" and "task_id \<in> set ids"
    and "distinct ids"
    and "map_of (active_workspaces w) task_id = Some info"
    and "wi_is_temporary info"
    and "os_rmtree_fails os (wi_workspace_path info)"
    and "os_resolve os (wi_workspace_path info) \<in> set (directories w)"
    and "\<And>k i. k \<in> set ids \<Longrightarrow> map_of (active_workspaces w) k = Some i \<Longrightarrow>
           \<not> at_or_below (os_resolve os (wi_workspace_path i))
                (os_resolve os (wi_workspace_path info)) \<or>
           (os_rmtree_fails os (wi_workspace_path i) \<and>
            os_resolve os (wi_workspace_path i) = os_resolve os (wi_workspace_path info))"
  shows "map_of (active_workspaces w') task_id = Some info \<and>
         os_resolve os (wi_workspace_path info) \<in> set (directories w')"
  using assms(1-4,7,8)
proof (induction ids arbitrary: w n)
  case Nil
  then show ?case by simp
next
  case (Cons k ids)
  let ?q = "os_resolve os (wi_workspace_path info)"
  obtain ok w1 where s: "cleanup_workspace os w k False = (ok, w1)"
    by (cases "cleanup_workspace os w k False")
  with Cons.prems have r: "cleanup_loop os ids w1 (if ok then n + 1 else n) = (n', w')"
    by simp
  from Cons.prems(3) have d: "distinct ids" and kn: "k \<notin> set ids"
    by auto
  have cover1: "\<not> at_or_below (os_resolve os (wi_workspace_path i)) ?q \<or>
        (os_rmtree_fails os (wi_workspace_path i) \<and> os_resolve os (wi_workspace_path i) = ?q)"
    if "j \<in> set ids" "map_of (active_workspaces w1) j = Some i" for j i
  proof -
    from that(1) kn have "j \<noteq> k"
      by auto
    with cleanup_workspace_active(3) [OF s] that(2)
    have "map_of (active_workspaces w) j = Some i"
      by simp
    with Cons.prems(6) [of j i] that(1) show ?thesis
      by simp
  qed
  have q1: "?q \<in> set (directories w1)"
    by (rule cleanup_workspace_dirs [OF s Cons.prems(5)]) (use Cons.prems(6) [of k] in auto)
  show ?case
  proof (cases "k = task_id")
    case True
    with cleanup_workspace_stays [OF s _ assms(5,6)] Cons.prems(4,5)
    have a1: "active_workspaces w1 = active_workspaces w"
      by simp
    from True kn have "task_id \<notin> set ids"
      by simp
    from cleanup_loop_frame [OF r this] a1 Cons.prems(4)
    have "map_of (active_workspaces w') task_id = Some info"
      by simp
    moreover have "?q \<in> set (directories w')"
      by (rule cleanup_loop_dirs [OF r q1 d]) (use cover1 in auto)
    ultimately show ?thesis
      by simp
  next
    case False
    with Cons.prems(2) have "task_id \<in> set ids"
      by auto
    moreover from False cleanup_workspace_active(3) [OF s] Cons.prems(4)
    have "map_of (active_workspaces w1) task_id = Some info"
      by simp
    ultimately show ?thesis
      by (intro Cons.IH [OF r _ d _ q1]) (use cover1 in blast)+
  qed
qed

lemma cleanup_loop_count:
  assumes "cleanup_loop os ids w n = (n', w')"
    and "distinct (dict_keys (active_workspaces w))" and "distinct ids"
    and "\<And>k. k \<in> set ids \<Longrightarrow> dict_has (active_workspaces w) k"
  shows "n' + length (active_workspaces w') = n + length (active_workspaces w)"
  using assms
proof (induction ids arbitrary: w n)
  case Nil
  then show ?case by simp
next
  case (Cons task_id ids)
  obtain ok w1 where s: "cleanup_workspace os w task_id False = (ok, w1)"
    by (cases "cleanup_workspace os w task_id False")
  with Cons.prems have r: "cleanup_loop os ids w1 (if ok then n + 1 else n) = (n', w')"
    by simp
  have d1: "distinct (dict_keys (active_workspaces w1))"
    using cleanup_workspace_active(2) [OF s] Cons.prems(2) by simp
  have h1: "dict_has (active_workspaces w1) k" if "k \<in> set ids" for k
  proof -
    from that Cons.prems(3) have "k \<noteq> task_id" by auto
    with cleanup_workspace_active(3) [OF s] Cons.prems(4) [of k] that show ?thesis
      by (simp add: dict_has_def)
  qed
  from Cons.prems(3) have "distinct ids"
    by simp
  from Cons.IH [OF r d1 this h1]
  have "n' + length (active_workspaces w') =
        (if ok then n + 1 else n) + length (active_workspaces w1)"
    by simp
  moreover from cleanup_workspace_count [OF s Cons.prems(2)] Cons.prems(4) [of task_id]
  have "length (active_workspaces w1) + (if ok then 1 else 0) = length (active_workspaces w)"
    by simp
  ultimately show ?case
    by (simp split: if_splits)
qed

lemma temporary_ids:
  assumes d: "distinct (dict_keys d)"
  shows "distinct (map fst (filter (\<lambda>(k, i). wi_is_temporary i) d))"
    and "k \<in> set (map fst (filter (\<lambda>(k, i). wi_is_temporary i) d)) \<longleftrightarrow>
           (\<exists>i. map_of d k = Some i \<and> wi_is_temporary i)"
proof -
  show "distinct (map fst (filter (\<lambda>(k, i). wi_is_temporary i) d))"
    using d by (simp add: dict_keys_def distinct_map_filter)
  show "k \<in> set (map fst (filter (\<lambda>(k, i). wi_is_temporary i) d)) \<longleftrightarrow>
           (\<exists>i. map_of d k = Some i \<and> wi_is_temporary i)"
    using d by (force simp: dict_keys_def dest: map_of_SomeD)
qed

text \<open>
  Claim C8, amended. For a registry with one entry for each task id,
  \<open>cleanup_all_temporary_workspaces\<close>
  \<^item> leaves the registry entry of every persistent workspace as it is;
  \<^item> removes the registry entry of every temporary workspace whose directory can be
    removed or does not exist, and that directory is gone afterwards;
  \<^item> leaves a temporary workspace registered, with its directory in place, when its
    directory exists and cannot be removed, and is not at or below the directory of
    another temporary workspace (unless that is the same directory, which cannot be
    removed either);
  \<^item> leaves every directory in place that is not at or below the directory of a temporary
    workspace, or that is the directory of one that cannot be removed: the directory of
    a persistent workspace is untouched unless it is, or lies below, the directory of a
    temporary workspace;
  \<^item> adds no entry and no directory, and keeps the registry file equal to the registry;
  \<^item> returns the number of registry entries it removed.
\<close>

theorem cleanup_all_temporary_workspaces_effect:
  assumes d: "distinct (dict_keys (active_workspaces w))"
    and c: "cleanup_all_temporary_workspaces os w = (n, w')"
  shows "(\<forall>task_id info. map_of (active_workspaces w) task_id = Some info \<and>
            \<not> wi_is_temporary info \<longrightarrow>
            map_of (active_workspaces w') task_id = Some info) \<and>
         (\<forall>task_id info. map_of (active_workspaces w) task_id = Some info \<and>
            wi_is_temporary info \<and>
            (\<not> os_rmtree_fails os (wi_workspace_path info) \<or>
             os_resolve os (wi_workspace_path info) \<notin> set (directories w)) \<longrightarrow>
            \<not> dict_has (active_workspaces w') task_id \<and>
            os_resolve os (wi_workspace_path info) \<notin> set (directories w')) \<and>
         (\<forall>task_id info. map_of (active_workspaces w) task_id = Some info \<and>
            wi_is_temporary info \<and> os_rmtree_fails os (wi_workspace_path info) \<and>
            os_resolve os (wi_workspace_path info) \<in> set (directories w) \<and>
            (\<forall>(k, i) \<in> set (active_workspaces w). wi_is_temporary i \<longrightarrow>
               \<not> at_or_below (os_resolve os (wi_workspace_path i))
                    (os_resolve os (wi_workspace_path info)) \<or>
               (os_rmtree_fails os (wi_workspace_path i) \<and>
                os_resolve os (wi_workspace_path i) =
                  os_resolve os (wi_workspace_path info))) \<longrightarrow>
            map_of (active_workspaces w') task_id = Some info \<and>
            os_resolve os (wi_workspace_path info) \<in> set (directories w')) \<and>
         (\<forall>q. q \<in> set (directories w) \<and>
            (\<forall>(k, i) \<in> set (active_workspaces w). wi_is_temporary i \<longrightarrow>
               \<not> at_or_below (os_resolve os (wi_workspace_path i)) q \<or>
               (os_rmtree_fails os (wi_workspace_path i) \<and>
                os_resolve os (wi_workspace_path i) = q)) \<longrightarrow>
            q \<in> set (directories w')) \<and>
         set (active_workspaces w') \<subseteq> set (active_workspaces w) \<and>
         set (directories w') \<subseteq> set (directories w) \<and>
         n + length (active_workspaces w') = length (active_workspaces w) \<and>
         (registry_file w = active_workspaces w \<longrightarrow> registry_file w' = active_workspaces w')"
proof -
  let ?ids = "map fst (filter (\<lambda>(task_id, workspace_info). wi_is_temporary workspace_info)
                 (active_workspaces w))"
  from c have l: "cleanup_loop os ?ids w 0 = (n, w')"
    by (simp add: cleanup_all_temporary_workspaces_def)
  note ids = temporary_ids [OF d]
  have temp: "wi_is_temporary i \<and> (k, i) \<in> set (active_workspaces w)"
    if "k \<in> set ?ids" "map_of (active_workspaces w) k = Some i" for k i
    using that map_of_SomeD [OF that(2)] unfolding ids(2) by auto
  have keep: "map_of (active_workspaces w') k = Some info"
    if "map_of (active_workspaces w) k = Some info" "\<not> wi_is_temporary info" for k info
  proof -
    from that have "k \<notin> set ?ids"
      unfolding ids(2) by simp
    from cleanup_loop_frame [OF l this] that(1) show ?thesis
      by simp
  qed
  have gone: "\<not> dict_has (active_workspaces w') k \<and>
              os_resolve os (wi_workspace_path info) \<notin> set (directories w')"
    if "map_of (active_workspaces w) k = Some info" "wi_is_temporary info"
      "\<not> os_rmtree_fails os (wi_workspace_path info) \<or>
       os_resolve os (wi_workspace_path info) \<notin> set (directories w)" for k info
  proof -
    from that have "k \<in> set ?ids"
      unfolding ids(2) by simp
    from cleanup_loop_removes [OF l this ids(1) that] show ?thesis .
  qed
  have stays: "map_of (active_workspaces w') k = Some info \<and>
               os_resolve os (wi_workspace_path info) \<in> set (directories w')"
    if m: "map_of (active_workspaces w) k = Some info" and t: "wi_is_temporary info"
      and f: "os_rmtree_fails os (wi_workspace_path info)"
      and e: "os_resolve os (wi_workspace_path info) \<in> set (directories w)"
      and u: "\<forall>(k, i) \<in> set (active_workspaces w). wi_is_temporary i \<longrightarrow>
               \<not> at_or_below (os_resolve os (wi_workspace_path i))
                    (os_resolve os (wi_workspace_path info)) \<or>
               (os_rmtree_fails os (wi_workspace_path i) \<and>
                os_resolve os (wi_workspace_path i) =
                  os_resolve os (wi_workspace_path info))" for k info
  proof -
    from m t have "k \<in> set ?ids"
      unfolding ids(2) by simp
    then show ?thesis
      by (rule cleanup_loop_stays [OF l _ ids(1) m t f e]) (use temp u in blast)
  qed
  have dirs: "q \<in> set (directories w')"
    if q: "q \<in> set (directories w)" and
      u: "\<forall>(k, i) \<in> set (active_workspaces w). wi_is_temporary i \<longrightarrow>
            \<not> at_or_below (os_resolve os (wi_workspace_path i)) q \<or>
            (os_rmtree_fails os (wi_workspace_path i) \<and>
             os_resolve os (wi_workspace_path i) = q)" for q
    by (rule cleanup_loop_dirs [OF l q ids(1)]) (use temp u in blast)
  have "n + length (active_workspaces w') = 0 + length (active_workspaces w)"
    by (rule cleanup_loop_count [OF l d ids(1)]) (unfold ids(2), auto simp: dict_has_def)
  then have count: "n + length (active_workspaces w') = length (active_workspaces w)"
    by simp
  from keep gone stays dirs count cleanup_loop_mono [OF l] show ?thesis
    by blast
qed

lemma separate_state:
  "active_workspaces separate_workspaces =
     [(''a'', \<lparr>wi_task_id = ''a'', wi_workspace_path = ''/srv/workspaces/task_a_k3v9q_xa'',
               wi_created_at = ''t1'', wi_is_temporary = True,
               wi_base_template = Some ''python''\<rparr>),
      (''keep'', \<lparr>wi_task_id = ''keep'', wi_workspace_path = ''/srv/workspaces/keep'',
               wi_created_at = ''t2'', wi_is_temporary = False,
               wi_base_template = Some ''python''\<rparr>),
      (''b'', \<lparr>wi_task_id = ''b'', wi_workspace_path = ''/srv/workspaces/task_b_p0w2m7zt'',
               wi_created_at = ''t3'', wi_is_temporary = True,
               wi_base_template = Some ''python''\<rparr>)]"
  "directories separate_workspaces =
     [['''', ''srv'', ''workspaces'', ''task_b_p0w2m7zt''],
      ['''', ''srv'', ''workspaces'', ''keep''],
      ['''', ''srv'', ''workspaces'', ''task_a_k3v9q_xa''],
      ['''', ''srv'', ''workspaces''], ['''', ''srv''], [''''], []]"
  by (simp_all add: separate_workspaces_def os_eval)

lemmas cleanup_eval = cleanup_all_temporary_workspaces_def cleanup_workspace_def Let_def
  locked_os_def is_dir_of_b_def never_def dict_del_def rmtree_def rmtree_failed_def
  dict_keys_def dict_has_def

theorem cleanup_all_temporary_workspaces_effect_witness:
  "map_of (active_workspaces (snd (cleanup_all_temporary_workspaces locked_os
      separate_workspaces))) ''keep'' =
     Some \<lparr>wi_task_id = ''keep'', wi_workspace_path = ''/srv/workspaces/keep'',
           wi_created_at = ''t2'', wi_is_temporary = False,
           wi_base_template = Some ''python''\<rparr> \<and>
   \<not> dict_has (active_workspaces (snd (cleanup_all_temporary_workspaces locked_os
      separate_workspaces))) ''a'' \<and>
   components ''/srv/workspaces/task_a_k3v9q_xa'' \<notin>
     set (directories (snd (cleanup_all_temporary_workspaces locked_os separate_workspaces))) \<and>
   map_of (active_workspaces (snd (cleanup_all_temporary_workspaces locked_os
      separate_workspaces))) ''b'' =
     Some \<lparr>wi_task_id = ''b'', wi_workspace_path = ''/srv/workspaces/task_b_p0w2m7zt'',
           wi_created_at = ''t3'', wi_is_temporary = True,
           wi_base_template = Some ''python''\<rparr> \<and>
   components ''/srv/workspaces/task_b_p0w2m7zt'' \<in>
     set (directories (snd (cleanup_all_temporary_workspaces locked_os separate_workspaces))) \<and>
   components ''/srv/workspaces/keep'' \<in>
     set (directories (snd (cleanup_all_temporary_workspaces locked_os separate_workspaces))) \<and>
   fst (cleanup_all_temporary_workspaces locked_os separate_workspaces) +
     length (active_workspaces
       (snd (cleanup_all_temporary_workspaces locked_os separate_workspaces))) = 3"
proof -
  let ?a = "\<lparr>wi_task_id = ''a'', wi_workspace_path = ''/srv/workspaces/task_a_k3v9q_xa'',
             wi_created_at = ''t1'', wi_is_temporary = True,
             wi_base_template = Some ''python''\<rparr>"
  let ?keep = "\<lparr>wi_task_id = ''keep'', wi_workspace_path = ''/srv/workspaces/keep'',
                wi_created_at = ''t2'', wi_is_temporary = False,
                wi_base_template = Some ''python''\<rparr>"
  let ?b = "\<lparr>wi_task_id = ''b'', wi_workspace_path = ''/srv/workspaces/task_b_p0w2m7zt'',
             wi_created_at = ''t3'', wi_is_temporary = True,
             wi_base_template = Some ''python''\<rparr>"
  note s = separate_state
  obtain n w' where
    c: "cleanup_all_temporary_workspaces locked_os separate_workspaces = (n, w')"
    by (cases "cleanup_all_temporary_workspaces locked_os separate_workspaces")
  have d: "distinct (dict_keys (active_workspaces separate_workspaces))"
    by (simp add: s dict_keys_def)
  note e = cleanup_all_temporary_workspaces_effect [OF d c]
  have 1: "map_of (active_workspaces separate_workspaces) ''keep'' = Some ?keep \<and>
           \<not> wi_is_temporary ?keep"
    by (simp add: s)
  have 2: "map_of (active_workspaces separate_workspaces) ''a'' = Some ?a \<and>
           wi_is_temporary ?a \<and>
           (\<not> os_rmtree_fails locked_os (wi_workspace_path ?a) \<or>
            os_resolve locked_os (wi_workspace_path ?a) \<notin>
              set (directories separate_workspaces))"
    by (simp add: s locked_os_def is_dir_of_b_def)
  have 3: "map_of (active_workspaces separate_workspaces) ''b'' = Some ?b \<and>
           wi_is_temporary ?b \<and> os_rmtree_fails locked_os (wi_workspace_path ?b) \<and>
           os_resolve locked_os (wi_workspace_path ?b) \<in>
             set (directories separate_workspaces) \<and>
           (\<forall>(k, i) \<in> set (active_workspaces separate_workspaces). wi_is_temporary i \<longrightarrow>
              \<not> at_or_below (os_resolve locked_os (wi_workspace_path i))
                   (os_resolve locked_os (wi_workspace_path ?b)) \<or>
              (os_rmtree_fails locked_os (wi_workspace_path i) \<and>
               os_resolve locked_os (wi_workspace_path i) =
                 os_resolve locked_os (wi_workspace_path ?b)))"
    by (simp add: s locked_os_def is_dir_of_b_def)
  have 4: "components ''/srv/workspaces/keep'' \<in> set (directories separate_workspaces) \<and>
           (\<forall>(k, i) \<in> set (active_workspaces separate_workspaces). wi_is_temporary i \<longrightarrow>
              \<not> at_or_below (os_resolve locked_os (wi_workspace_path i))
                   (components ''/srv/workspaces/keep'') \<or>
              (os_rmtree_fails locked_os (wi_workspace_path i) \<and>
               os_resolve locked_os (wi_workspace_path i) =
                 components ''/srv/workspaces/keep''))"
    by (simp add: s locked_os_def is_dir_of_b_def)
  from e 1 have k: "map_of (active_workspaces w') ''keep'' = Some ?keep"
    by blast
  from e 2 have g: "\<not> dict_has (active_workspaces w') ''a'' \<and>
      os_resolve locked_os (wi_workspace_path ?a) \<notin> set (directories w')"
    by blast
  from e 3 have b: "map_of (active_workspaces w') ''b'' = Some ?b \<and>
      os_resolve locked_os (wi_workspace_path ?b) \<in> set (directories w')"
    by blast
  from e 4 have q: "components ''/srv/workspaces/keep'' \<in> set (directories w')"
    by blast
  from e have n: "n + length (active_workspaces w') =
      length (active_workspaces separate_workspaces)"
    by blast
  have r: "snd (cleanup_all_temporary_workspaces locked_os separate_workspaces) = w'"
    "fst (cleanup_all_temporary_workspaces locked_os separate_workspaces) = n"
    by (simp_all add: c)
  from k g b q n show ?thesis
    unfolding r by (simp add: s locked_os_def)
qed

text \<open>
  Claim C8 as stated fails at \<open>shared_workspaces\<close> with \<open>locked_os\<close>: the directory of
  the persistent workspace \<open>task_a_k3v9q_xa\<close> is the directory of the temporary workspace
  of task \<open>a\<close> and is removed with it, and the temporary workspace of task \<open>b\<close>, whose
  directory cannot be removed, stays in the registry and on disk.
\<close>

lemma shared_state:
  "active_workspaces shared_workspaces =
     [(''a'', \<lparr>wi_task_id = ''a'', wi_workspace_path = ''/srv/workspaces/task_a_k3v9q_xa'',
               wi_created_at = ''t1'', wi_is_temporary = True,
               wi_base_template = Some ''python''\<rparr>),
      (''task_a_k3v9q_xa'',
       \<lparr>wi_task_id = ''task_a_k3v9q_xa'',
        wi_workspace_path = ''/srv/workspaces/task_a_k3v9q_xa'',
        wi_created_at = ''t2'', wi_is_temporary = False,
        wi_base_template = Some ''python''\<rparr>),
      (''b'', \<lparr>wi_task_id = ''b'', wi_workspace_path = ''/srv/workspaces/task_b_p0w2m7zt'',
               wi_created_at = ''t3'', wi_is_temporary = True,
               wi_base_template = Some ''python''\<rparr>)]"
  "directories shared_workspaces =
     [['''', ''srv'', ''workspaces'', ''task_b_p0w2m7zt''],
      ['''', ''srv'', ''workspaces'', ''task_a_k3v9q_xa''],
      ['''', ''srv'', ''workspaces''], ['''', ''srv''], [''''], []]"
  by (simp_all add: shared_workspaces_def os_eval)

theorem cleanup_all_temporary_counterexample:
  "map_of (active_workspaces shared_workspaces) ''task_a_k3v9q_xa'' =
     Some \<lparr>wi_task_id = ''task_a_k3v9q_xa'',
           wi_workspace_path = ''/srv/workspaces/task_a_k3v9q_xa'',
           wi_created_at = ''t2'', wi_is_temporary = False,
           wi_base_template = Some ''python''\<rparr> \<and>
   components ''/srv/workspaces/task_a_k3v9q_xa'' \<in> set (directories shared_workspaces) \<and>
   components ''/srv/workspaces/task_a_k3v9q_xa'' \<notin>
     set (directories (snd (cleanup_all_temporary_workspaces locked_os shared_workspaces))) \<and>
   map_of (active_workspaces shared_workspaces) ''b'' =
     Some \<lparr>wi_task_id = ''b'', wi_workspace_path = ''/srv/workspaces/task_b_p0w2m7zt'',
           wi_created_at = ''t3'', wi_is_temporary = True,
           wi_base_template = Some ''python''\<rparr> \<and>
   dict_has (active_workspaces
     (snd (cleanup_all_temporary_workspaces locked_os shared_workspaces))) ''b'' \<and>
   components ''/srv/workspaces/task_b_p0w2m7zt'' \<in>
     set (directories (snd (cleanup_all_temporary_workspaces locked_os shared_workspaces))) \<and>
   fst (cleanup_all_temporary_workspaces locked_os shared_workspaces) = 1"
  by (simp add: shared_state cleanup_eval)

section \<open>Properties of the orchestrator\<close>

lemma no_phrase_in_compile_error:
  "check_token_limit_in_output [] ''compile error'' = False"
  by code_simp

lemma can_run_failing_run:
  "can_run_tasks (env_percent_text failing_run) default_monitor
     (env_token_status failing_run) = (True, ''Token usage within acceptable limits'')"
  by (simp add: can_run_tasks_def failing_run_def default_monitor_def)

lemma execute_task_failing_run:
  "execute_task (env_extract_session_id failing_run) wp (tc_session_id twice_tried)
     (Some 300) (env_elapsed failing_run) (env_initial_files failing_run)
     (env_final_files failing_run) (env_outcome failing_run) =
   \<lparr>er_success = False, er_stdout = [], er_stderr = ''compile error'',
    er_return_code = 1, er_execution_time = 12,
    er_changed_files = [''.claude/prompt.md''],
    er_workspace_path = wp, er_session_id = None,
    er_error_message = Some ''compile error'', er_token_limit_hit = False\<rparr>"
  by (simp add: execute_task_def failing_run_def twice_tried_def new_task_def
      start_new_claude_session_def no_phrase_in_compile_error no_session_id_def
      detect_file_changes_def dict_keys_def dict_has_def)

lemma load_tasks_single:
  "load_tasks now (Some \<lparr>td_meta = m, td_tasks = Some [asdict t]\<rparr>) = Inr [t]"
  by (simp add: load_tasks_def load_tasks_data_def task_of_dict_asdict)

lemma get_pending_tasks_twice_tried:
  "get_pending_tasks ''10:00'' store_twice_tried 5 = Inr [twice_tried]"
  by (simp add: get_pending_tasks_def get_tasks_by_status_def store_twice_tried_def
      load_tasks_single slice_to_def)
     (simp add: twice_tried_def new_task_def)

lemma prepared_state:
  "active_workspaces prepared_workspaces =
     [(''task-001'', \<lparr>wi_task_id = ''task-001'', wi_workspace_path = ''workspaces/task-001'',
         wi_created_at = ''09:10'', wi_is_temporary = False,
         wi_base_template = Some ''python''\<rparr>)]"
  "directories prepared_workspaces = [[''workspaces'', ''task-001''], [''workspaces''], []]"
  by (simp_all add: prepared_workspaces_def os_eval)

lemma create_workspace_prepared:
  "create_workspace os now suffix prepared_workspaces ''task-001'' None True =
     (Inr ''workspaces/task-001'', prepared_workspaces)"
  by (simp add: create_workspace_def prepared_state)

lemma create_workspace_unprepared:
  "fst (create_workspace (env_os failing_run) now suffix (new_manager plain_os [] ''workspaces'')
     ''task-001'' None True) = Inl (NameError ''datetime'')"
  by (simp add: create_workspace_def new_manager_def Let_def)

lemmas run_eval = process_single_task_def Let_def mark_task_running_def get_task_def
  update_task_def save_tasks_def save_tasks_data_def load_tasks_data_def load_tasks_single
  reset_task_def mark_task_failed_def on_exception_def

text \<open>
  Claim C1 says that a task whose persisted \<open>attempts\<close> has reached \<open>max_attempts\<close> after
  a failed execution without quota signal becomes \<open>failed\<close>. The code compares the
  \<open>attempts\<close> of the task as it was selected, before \<open>mark_task_running\<close> counted the
  attempt: the task \<open>twice_tried\<close>, selected with 2 of 3 attempts and with a workspace
  registered for it, is run a third time, fails, and is reset to \<open>pending\<close> with 3
  persisted attempts.
\<close>

theorem process_single_task_retries_at_max:
  "get_pending_tasks ''10:00'' store_twice_tried 5 = Inr [twice_tried] \<and>
   tc_attempts twice_tried = 2 \<and> tc_max_attempts twice_tried = 3 \<and>
   create_workspace (env_os failing_run) (env_now failing_run) (env_suffix failing_run)
     prepared_workspaces ''task-001'' None True =
     (Inr ''workspaces/task-001'', prepared_workspaces) \<and>
   (case process_single_task failing_run default_monitor 300 twice_tried store_twice_tried
           prepared_workspaces of
      Inl e \<Rightarrow> False
    | Inr (result, file', w') \<Rightarrow>
        tr_status result = ''pending'' \<and>
        get_task ''10:05'' file' ''task-001'' =
          Inr (Some (twice_tried\<lparr>tc_status := ''pending'', tc_attempts := 3,
                 tc_workspace_path := Some ''workspaces/task-001''\<rparr>)))"
proof (intro conjI)
  show "get_pending_tasks ''10:00'' store_twice_tried 5 = Inr [twice_tried]"
    by (rule get_pending_tasks_twice_tried)
  show "tc_attempts twice_tried = 2" "tc_max_attempts twice_tried = 3"
    by (simp_all add: twice_tried_def new_task_def)
  show "create_workspace (env_os failing_run) (env_now failing_run) (env_suffix failing_run)
     prepared_workspaces ''task-001'' None True =
     (Inr ''workspaces/task-001'', prepared_workspaces)"
    by (rule create_workspace_prepared)
  have id: "tc_id twice_tried = ''task-001''"
    by (simp add: twice_tried_def new_task_def)
  show "case process_single_task failing_run default_monitor 300 twice_tried store_twice_tried
           prepared_workspaces of
      Inl e \<Rightarrow> False
    | Inr (result, file', w') \<Rightarrow>
        tr_status result = ''pending'' \<and>
        get_task ''10:05'' file' ''task-001'' =
          Inr (Some (twice_tried\<lparr>tc_status := ''pending'', tc_attempts := 3,
                 tc_workspace_path := Some ''workspaces/task-001''\<rparr>))"
    by (simp add: run_eval id can_run_failing_run create_workspace_prepared
        execute_task_failing_run store_twice_tried_def)
       (simp add: twice_tried_def new_task_def failing_run_def)
qed

text \<open>
  Without a registered workspace the task is not executed: \<open>create_workspace\<close> raises,
  and the handler marks the task failed.
\<close>

lemma process_single_task_without_workspace:
  "(case process_single_task failing_run default_monitor 300 twice_tried store_twice_tried
           (new_manager plain_os [] ''workspaces'') of
      Inl e \<Rightarrow> False
    | Inr (result, file', w') \<Rightarrow>
        tr_status result = ''failed'' \<and>
        tr_error result = Some ''name 'datetime' is not defined'' \<and>
        get_task ''10:05'' file' ''task-001'' =
          Inr (Some (twice_tried\<lparr>tc_status := ''failed'', tc_started_at := Some ''10:00'',
                 tc_completed_at := Some ''10:00'', tc_attempts := 3,
                 tc_last_error := Some ''Unexpected error: name 'datetime' is not defined''\<rparr>)))"
proof -
  have id: "tc_id twice_tried = ''task-001''"
    by (simp add: twice_tried_def new_task_def)
  obtain w1 where c: "create_workspace (env_os failing_run) (env_now failing_run)
      (env_suffix failing_run) (new_manager plain_os [] ''workspaces'') ''task-001'' None True =
      (Inl (NameError ''datetime''), w1)"
    using create_workspace_unprepared
    by (metis prod.collapse)
  show ?thesis
    by (simp add: run_eval id can_run_failing_run c store_twice_tried_def error_str_def)
       (simp add: twice_tried_def new_task_def failing_run_def)
qed

end
